theory Spec2Isabelle
  imports Main
begin

section \<open>Text: the string operations of the source\<close>

text \<open>
  Source text is a \<^typ>\<open>string\<close>. The character classes below are those of Python's
  \<^verbatim>\<open>str\<close> methods and of the \<^verbatim>\<open>re\<close> module on the ASCII repertoire:
  \<^verbatim>\<open>str.isspace\<close> and \<^verbatim>\<open>\s\<close> hold of the codes 9 to 13 and 28 to 32,
  \<^verbatim>\<open>\d\<close> of the ten digits, \<^verbatim>\<open>\w\<close> of letters, digits and the underscore.
  A character outside ASCII is taken to be no space, no digit, no letter, and is its own
  upper case.
\<close>

definition is_space :: "char \<Rightarrow> bool" where
  "is_space c = (let n = (of_char c :: nat) in (9 \<le> n \<and> n \<le> 13) \<or> (28 \<le> n \<and> n \<le> 32))"

definition is_digit :: "char \<Rightarrow> bool" where
  "is_digit c = (let n = (of_char c :: nat) in 48 \<le> n \<and> n \<le> 57)"

definition is_upper :: "char \<Rightarrow> bool" where
  "is_upper c = (let n = (of_char c :: nat) in 65 \<le> n \<and> n \<le> 90)"

definition is_lower :: "char \<Rightarrow> bool" where
  "is_lower c = (let n = (of_char c :: nat) in 97 \<le> n \<and> n \<le> 122)"

text \<open>\<^verbatim>\<open>\w\<close>, which decides the word boundary \<^verbatim>\<open>\b\<close>.\<close>

definition is_word :: "char \<Rightarrow> bool" where
  "is_word c = (is_upper c \<or> is_lower c \<or> is_digit c \<or> c = CHR ''_'')"

definition to_upper :: "char \<Rightarrow> char" where
  "to_upper c =
     (case map_of (zip ''abcdefghijklmnopqrstuvwxyz'' ''ABCDEFGHIJKLMNOPQRSTUVWXYZ'') c of
        Some u \<Rightarrow> u
      | None \<Rightarrow> c)"

text \<open>\<^verbatim>\<open>s.upper()\<close>\<close>

definition upper :: "string \<Rightarrow> string" where
  "upper s = map to_upper s"

text \<open>\<^verbatim>\<open>s.strip()\<close>\<close>

definition strip :: "string \<Rightarrow> string" where
  "strip s = rev (dropWhile is_space (rev (dropWhile is_space s)))"

text \<open>\<^verbatim>\<open>s.startswith(p)\<close>\<close>

definition startswith :: "string \<Rightarrow> string \<Rightarrow> bool" where
  "startswith s p = (take (length p) s = p)"

text \<open>\<^verbatim>\<open>sub in s\<close>\<close>

fun contains :: "string \<Rightarrow> string \<Rightarrow> bool" where
  "contains [] sub = (sub = [])"
| "contains (c # cs) sub = (startswith (c # cs) sub \<or> contains cs sub)"

text \<open>\<^verbatim>\<open>s.split(c)\<close> for a separator of one character: never an empty list.\<close>

fun str_split :: "string \<Rightarrow> char \<Rightarrow> string list" where
  "str_split [] sep = [[]]"
| "str_split (c # cs) sep =
     (if c = sep then [] # str_split cs sep
      else (case str_split cs sep of [] \<Rightarrow> [[c]] | w # ws \<Rightarrow> (c # w) # ws))"

text \<open>\<^verbatim>\<open>s.find(c)\<close>: \<open>None\<close> stands for Python's -1.\<close>

fun str_find :: "string \<Rightarrow> char \<Rightarrow> nat option" where
  "str_find [] ch = None"
| "str_find (c # cs) ch = (if c = ch then Some 0 else map_option Suc (str_find cs ch))"

text \<open>\<^verbatim>\<open>s.isdigit()\<close>\<close>

definition isdigit :: "string \<Rightarrow> bool" where
  "isdigit s = (s \<noteq> [] \<and> list_all is_digit s)"

text \<open>The apostrophe, and the comment bracket made of two of them.\<close>

definition apos :: char where
  "apos = CHR 0x27"

definition comment_mark :: string where
  "comment_mark = [apos, apos]"

section \<open>Exceptions\<close>

text \<open>
  The exceptions the parser's operations can raise: \<^verbatim>\<open>int(s)\<close> on a string that is
  no number (ValueError), \<^verbatim>\<open>int(None)\<close> (TypeError), and a method call such as
  \<^verbatim>\<open>match.group(n).upper()\<close> on a group that took no part in the match, whose value
  is \<^verbatim>\<open>None\<close> (AttributeError).
\<close>

datatype py_error = ValueError | TypeError | AttributeError

definition digit_val :: "char \<Rightarrow> int" where
  "digit_val c = int (of_char c) - 48"

text \<open>
  \<^verbatim>\<open>int(s)\<close>. The source only calls it on a capture of \<^verbatim>\<open>\d+\<close>; on every other
  string the model raises, which covers the strings Python refuses.
\<close>

definition py_int :: "string \<Rightarrow> py_error + int" where
  "py_int s = (if isdigit s then Inr (foldl (\<lambda>a c. 10 * a + digit_val c) 0 s) else Inl ValueError)"

section \<open>Regular expressions: the backtracking matcher of the re module\<close>

text \<open>
  The patterns of the source use literals, character classes, greedy and lazy repetition
  of one class, optional and alternative parts, capture groups, the word boundary
  \<^verbatim>\<open>\b\<close> and the end anchor \<^verbatim>\<open>$\<close>. \<open>rmatch\<close> is the backtracking search of
  \<^verbatim>\<open>re\<close> in continuation-passing style: the continuation \<open>k\<close> is the rest of the
  pattern, an alternative is tried only when everything after the earlier one has failed,
  and the groups set on a path that fails are forgotten with it. The flag \<open>ic\<close> is
  \<^verbatim>\<open>re.IGNORECASE\<close>; it decides how a literal is compared (a class is written with
  both cases where the flag is set).
\<close>

datatype rx =
    Lit string
  | Cls "char \<Rightarrow> bool"
  | Star "char \<Rightarrow> bool"
  | Plus "char \<Rightarrow> bool"
  | LazyStar "char \<Rightarrow> bool"
  | LazyPlus "char \<Rightarrow> bool"
  | Opt rx
  | Alt rx rx
  | Seq rx rx
  | Grp nat rx
  | WordB
  | Eol

type_synonym groups = "nat \<rightharpoonup> string"

fun lit_prefix :: "bool \<Rightarrow> string \<Rightarrow> string \<Rightarrow> string option" where
  "lit_prefix ic [] cs = Some cs"
| "lit_prefix ic (l # ls) [] = None"
| "lit_prefix ic (l # ls) (c # cs) =
     (if c = l \<or> (ic \<and> to_upper c = to_upper l) then lit_prefix ic ls cs else None)"

text \<open>Greedy repetition takes the longest run first and gives characters back on failure.\<close>

fun greedy :: "(char \<Rightarrow> bool) \<Rightarrow> string \<Rightarrow> (string \<Rightarrow> 'r option) \<Rightarrow> 'r option" where
  "greedy p [] k = k []"
| "greedy p (c # cs) k =
     (if p c then (case greedy p cs k of Some r \<Rightarrow> Some r | None \<Rightarrow> k (c # cs))
      else k (c # cs))"

text \<open>Lazy repetition tries the rest of the pattern first and takes a character on failure.\<close>

fun lazy :: "(char \<Rightarrow> bool) \<Rightarrow> string \<Rightarrow> (string \<Rightarrow> 'r option) \<Rightarrow> 'r option" where
  "lazy p [] k = k []"
| "lazy p (c # cs) k =
     (case k (c # cs) of Some r \<Rightarrow> Some r | None \<Rightarrow> if p c then lazy p cs k else None)"

text \<open>\<open>s\<close> is the whole subject and \<open>cs\<close> what is left of it at the current position.\<close>

definition at_boundary :: "string \<Rightarrow> string \<Rightarrow> bool" where
  "at_boundary s cs =
     (let i = length s - length cs
      in (0 < i \<and> is_word (s ! (i - 1))) \<noteq> (cs \<noteq> [] \<and> is_word (hd cs)))"

primrec rmatch ::
  "rx \<Rightarrow> bool \<Rightarrow> string \<Rightarrow> string \<Rightarrow> groups \<Rightarrow> (string \<Rightarrow> groups \<Rightarrow> 'r option) \<Rightarrow> 'r option"
where
  "rmatch (Lit l) ic s cs g k =
     (case lit_prefix ic l cs of Some cs' \<Rightarrow> k cs' g | None \<Rightarrow> None)"
| "rmatch (Cls p) ic s cs g k =
     (case cs of [] \<Rightarrow> None | c # cs' \<Rightarrow> if p c then k cs' g else None)"
| "rmatch (Star p) ic s cs g k = greedy p cs (\<lambda>cs'. k cs' g)"
| "rmatch (Plus p) ic s cs g k =
     (case cs of [] \<Rightarrow> None
      | c # cs' \<Rightarrow> if p c then greedy p cs' (\<lambda>cs''. k cs'' g) else None)"
| "rmatch (LazyStar p) ic s cs g k = lazy p cs (\<lambda>cs'. k cs' g)"
| "rmatch (LazyPlus p) ic s cs g k =
     (case cs of [] \<Rightarrow> None
      | c # cs' \<Rightarrow> if p c then lazy p cs' (\<lambda>cs''. k cs'' g) else None)"
| "rmatch (Opt a) ic s cs g k =
     (case rmatch a ic s cs g k of Some r \<Rightarrow> Some r | None \<Rightarrow> k cs g)"
| "rmatch (Alt a b) ic s cs g k =
     (case rmatch a ic s cs g k of Some r \<Rightarrow> Some r | None \<Rightarrow> rmatch b ic s cs g k)"
| "rmatch (Seq a b) ic s cs g k = rmatch a ic s cs g (\<lambda>cs' g'. rmatch b ic s cs' g' k)"
| "rmatch (Grp n a) ic s cs g k =
     rmatch a ic s cs g (\<lambda>cs' g'. k cs' (g'(n \<mapsto> take (length cs - length cs') cs)))"
| "rmatch WordB ic s cs g k = (if at_boundary s cs then k cs g else None)"
| "rmatch Eol ic s cs g k = (if cs = [] then k cs g else None)"

text \<open>One attempt at the position where \<open>cs\<close> starts: what is left after the match, and the groups.\<close>

definition match_at :: "bool \<Rightarrow> rx \<Rightarrow> string \<Rightarrow> string \<Rightarrow> (string \<times> groups) option" where
  "match_at ic r s cs = rmatch r ic s cs Map.empty (\<lambda>cs' g. Some (cs', g))"

text \<open>\<^verbatim>\<open>re.match(r, s)\<close>: the pattern at position 0; it need not reach the end of \<open>s\<close>.\<close>

definition re_match :: "bool \<Rightarrow> rx \<Rightarrow> string \<Rightarrow> groups option" where
  "re_match ic r s = map_option snd (match_at ic r s s)"

fun search_from :: "bool \<Rightarrow> rx \<Rightarrow> string \<Rightarrow> string \<Rightarrow> groups option" where
  "search_from ic r s [] = map_option snd (match_at ic r s [])"
| "search_from ic r s (c # cs) =
     (case match_at ic r s (c # cs) of
        Some m \<Rightarrow> Some (snd m)
      | None \<Rightarrow> search_from ic r s cs)"

text \<open>\<^verbatim>\<open>re.search(r, s)\<close>: the first position, from the left, where the pattern matches.\<close>

definition re_search :: "bool \<Rightarrow> rx \<Rightarrow> string \<Rightarrow> groups option" where
  "re_search ic r s = search_from ic r s s"

text \<open>
  \<^verbatim>\<open>re.finditer(r, s)\<close>: the matches from left to right, each search starting where the
  last match ended (\<open>skip\<close> counts the characters of the last match still to pass). A match
  is (start, end, groups). The patterns the source iterates cannot match the empty string.
\<close>

fun finditer_from :: "bool \<Rightarrow> rx \<Rightarrow> string \<Rightarrow> string \<Rightarrow> nat \<Rightarrow> (nat \<times> nat \<times> groups) list" where
  "finditer_from ic r s [] skip =
     (if skip = 0 then
        (case match_at ic r s [] of
           Some m \<Rightarrow> [(length s, length s, snd m)]
         | None \<Rightarrow> [])
      else [])"
| "finditer_from ic r s (c # cs) skip =
     (if 0 < skip then finditer_from ic r s cs (skip - 1)
      else
        (case match_at ic r s (c # cs) of
           Some m \<Rightarrow>
             (let start = length s - length (c # cs); end = length s - length (fst m)
              in (start, end, snd m) # finditer_from ic r s cs (end - start - 1))
         | None \<Rightarrow> finditer_from ic r s cs 0))"

definition finditer :: "bool \<Rightarrow> rx \<Rightarrow> string \<Rightarrow> (nat \<times> nat \<times> groups) list" where
  "finditer ic r s = finditer_from ic r s s 0"

text \<open>\<^verbatim>\<open>pattern.findall(s)\<close> for a pattern with one group: the text of group 1 of each match.\<close>

definition findall :: "bool \<Rightarrow> rx \<Rightarrow> string \<Rightarrow> string list" where
  "findall ic r s =
     map (\<lambda>m. case snd (snd m) 1 of Some w \<Rightarrow> w | None \<Rightarrow> []) (finditer ic r s)"

text \<open>A pattern written as the sequence of its parts.\<close>

fun seqs :: "rx list \<Rightarrow> rx" where
  "seqs [] = Lit []"
| "seqs [r] = r"
| "seqs (r # rs) = Seq r (seqs rs)"

subsection \<open>The character classes of the patterns\<close>

text \<open>\<^verbatim>\<open>[A-Z]\<close> under IGNORECASE\<close>

definition cls_alpha :: "char \<Rightarrow> bool" where
  "cls_alpha c = (is_upper c \<or> is_lower c)"

text \<open>\<^verbatim>\<open>[A-Z0-9_]\<close> under IGNORECASE\<close>

definition cls_ident :: "char \<Rightarrow> bool" where
  "cls_ident c = (is_upper c \<or> is_lower c \<or> is_digit c \<or> c = CHR ''_'')"

text \<open>\<^verbatim>\<open>[A-Z0-9]\<close> under IGNORECASE\<close>

definition cls_alnum :: "char \<Rightarrow> bool" where
  "cls_alnum c = (is_upper c \<or> is_lower c \<or> is_digit c)"

text \<open>\<^verbatim>\<open>.\<close> without DOTALL, and with it\<close>

definition cls_dot :: "char \<Rightarrow> bool" where
  "cls_dot c = (c \<noteq> CHR 0x0A)"

definition cls_any :: "char \<Rightarrow> bool" where
  "cls_any c = True"

text \<open>\<^verbatim>\<open>[^x]\<close>\<close>

definition cls_not :: "char \<Rightarrow> char \<Rightarrow> bool" where
  "cls_not x c = (c \<noteq> x)"

text \<open>A set of upper-case letters such as \<^verbatim>\<open>[VH]\<close>, as written and under IGNORECASE.\<close>

definition cls_of :: "string \<Rightarrow> char \<Rightarrow> bool" where
  "cls_of chars c = (c \<in> set chars)"

definition cls_of_ic :: "string \<Rightarrow> char \<Rightarrow> bool" where
  "cls_of_ic chars c = (to_upper c \<in> set chars)"

text \<open>\<^verbatim>\<open>[A-Z][A-Z0-9_]*\<close> and \<^verbatim>\<open>[A-Z][A-Z0-9]*\<close> under IGNORECASE\<close>

definition rx_name :: rx where
  "rx_name = Seq (Cls cls_alpha) (Star cls_ident)"

definition rx_name_plain :: rx where
  "rx_name_plain = Seq (Cls cls_alpha) (Star cls_alnum)"

section \<open>The semantic model\<close>

text \<open>
  The dataclasses of the source as records; a field keeps the source's name behind a prefix
  for its class. A dictionary is a map. Line numbers are the zero-based indices of
  \<^verbatim>\<open>enumerate\<close>.
\<close>

text \<open>The enumeration \<^verbatim>\<open>CMS2Type\<close>; its member \<^verbatim>\<open>CHAR\<close> is written \<open>CHAR_T\<close>.\<close>

datatype CMS2Type =
  INTEGER | FIXED | FLOAT | BOOLEAN | CHAR_T | STATUS | UNIVERSAL | TABLE | UNKNOWN

record VariableDefinition =
  var_name :: string
  var_type :: CMS2Type
  var_bits :: "int option"
  var_signed :: bool
  var_frac_bits :: "int option"
  var_char_length :: "int option"
  var_status_values :: "string list"
  var_is_preset :: bool
  var_preset_value :: "string option"
  var_modifier :: "string option"
  var_line_number :: nat
  var_column_start :: nat
  var_column_end :: nat
  var_parent_block :: "string option"

record FieldDefinition =
  fld_name :: string
  fld_field_type :: CMS2Type
  fld_bits :: "int option"
  fld_signed :: bool
  fld_frac_bits :: "int option"
  fld_char_length :: "int option"
  fld_start_word :: "int option"
  fld_start_bit :: "int option"
  fld_preset_values :: "string list"
  fld_line_number :: nat
  fld_parent_table :: "string option"

record TableDefinition =
  tbl_name :: string
  tbl_table_type :: string
  tbl_packing :: string
  tbl_item_count :: "int option"
  tbl_item_typed :: bool
  tbl_type_spec :: "string option"
  tbl_fields :: "string \<rightharpoonup> FieldDefinition"
  tbl_is_indirect :: bool
  tbl_major_index :: "string option"
  tbl_modifier :: "string option"
  tbl_line_start :: nat
  tbl_line_end :: nat

record ProcedureDefinition =
  proc_name :: string
  proc_is_exec :: bool
  proc_input_params :: "string list"
  proc_output_params :: "string list"
  proc_exit_params :: "string list"
  proc_modifier :: "string option"
  proc_local_vars :: "string \<rightharpoonup> VariableDefinition"
  proc_line_start :: nat
  proc_line_end :: nat
  proc_body_start :: nat

record FunctionDefinition =
  func_name :: string
  func_input_params :: "string list"
  func_return_type :: "string option"
  func_modifier :: "string option"
  func_local_vars :: "string \<rightharpoonup> VariableDefinition"
  func_line_start :: nat
  func_line_end :: nat

record TypeDefinition =
  typ_name :: string
  typ_base_type :: "string option"
  typ_packing :: string
  typ_status_values :: "string list"
  typ_fields :: "string \<rightharpoonup> FieldDefinition"
  typ_line_start :: nat
  typ_line_end :: nat

text \<open>
  A table, a type and a procedure are objects that the parser changes after it has stored
  them (fields are added, \<^verbatim>\<open>line_end\<close> is set), and the same object is stored both
  in the model's registry and in the index of the enclosing block. The objects therefore
  live in a store, a list per class, and a registry holds references: the position of the
  object in its list.
\<close>

type_synonym ref = nat

record SystemDataBlock =
  dd_name :: string
  dd_variables :: "string \<rightharpoonup> VariableDefinition"
  dd_tables :: "string \<rightharpoonup> ref"
  dd_types :: "string \<rightharpoonup> ref"
  dd_line_start :: nat
  dd_line_end :: nat

record SystemProcBlock =
  sp_name :: string
  sp_is_reentrant :: bool
  sp_procedures :: "string \<rightharpoonup> ref"
  sp_functions :: "string \<rightharpoonup> FunctionDefinition"
  sp_local_data :: "string \<rightharpoonup> VariableDefinition"
  sp_line_start :: nat
  sp_line_end :: nat

record CMS2SemanticModel =
  variables :: "string \<rightharpoonup> VariableDefinition"
  tables :: "string \<rightharpoonup> ref"
  types :: "string \<rightharpoonup> ref"
  procedures :: "string \<rightharpoonup> ref"
  "functions" :: "string \<rightharpoonup> FunctionDefinition"
  sys_data_blocks :: "string \<rightharpoonup> SystemDataBlock"
  sys_proc_blocks :: "string \<rightharpoonup> SystemProcBlock"
  current_scope :: string
  scope_stack :: "string list"
  constant_mode :: string
  table_objs :: "TableDefinition list"
  type_objs :: "TypeDefinition list"
  proc_objs :: "ProcedureDefinition list"

text \<open>\<^verbatim>\<open>CMS2SemanticModel.__init__\<close>\<close>

definition new_model :: CMS2SemanticModel where
  "new_model =
     \<lparr>variables = Map.empty, tables = Map.empty, types = Map.empty, procedures = Map.empty,
      functions = Map.empty, sys_data_blocks = Map.empty, sys_proc_blocks = Map.empty,
      current_scope = ''GLOBAL'', scope_stack = [], constant_mode = ''D'',
      table_objs = [], type_objs = [], proc_objs = []\<rparr>"

text \<open>Changing the object a reference points to; every holder of the reference sees the change.\<close>

definition obj_update :: "ref \<Rightarrow> ('a \<Rightarrow> 'a) \<Rightarrow> 'a list \<Rightarrow> 'a list" where
  "obj_update r f objs = (if r < length objs then objs[r := f (objs ! r)] else objs)"

text \<open>The object behind a reference.\<close>

definition deref :: "'a list \<Rightarrow> ref \<Rightarrow> 'a option" where
  "deref objs r = (if r < length objs then Some (objs ! r) else None)"

definition add_variable :: "VariableDefinition \<Rightarrow> CMS2SemanticModel \<Rightarrow> CMS2SemanticModel" where
  "add_variable var m =
     (let key = (if current_scope m \<noteq> ''GLOBAL'' then current_scope m @ ''.'' @ var_name var
                 else var_name var)
      in m\<lparr>variables := ((variables m)(var_name var \<mapsto> var))(key \<mapsto> var)\<rparr>)"

definition get_variable :: "CMS2SemanticModel \<Rightarrow> string \<Rightarrow> VariableDefinition option" where
  "get_variable m name =
     (let scoped_name = current_scope m @ ''.'' @ name
      in if variables m scoped_name \<noteq> None then variables m scoped_name
         else if variables m name \<noteq> None then variables m name
         else None)"

definition add_table :: "TableDefinition \<Rightarrow> CMS2SemanticModel \<Rightarrow> CMS2SemanticModel" where
  "add_table table m =
     m\<lparr>tables := (tables m)(tbl_name table \<mapsto> length (table_objs m)),
       table_objs := table_objs m @ [table]\<rparr>"

definition get_table :: "CMS2SemanticModel \<Rightarrow> string \<Rightarrow> TableDefinition option" where
  "get_table m name = (case tables m name of None \<Rightarrow> None | Some r \<Rightarrow> deref (table_objs m) r)"

definition add_procedure :: "ProcedureDefinition \<Rightarrow> CMS2SemanticModel \<Rightarrow> CMS2SemanticModel" where
  "add_procedure proc m =
     m\<lparr>procedures := (procedures m)(proc_name proc \<mapsto> length (proc_objs m)),
       proc_objs := proc_objs m @ [proc]\<rparr>"

definition get_procedure :: "CMS2SemanticModel \<Rightarrow> string \<Rightarrow> ProcedureDefinition option" where
  "get_procedure m name =
     (case procedures m name of None \<Rightarrow> None | Some r \<Rightarrow> deref (proc_objs m) r)"

definition add_function :: "FunctionDefinition \<Rightarrow> CMS2SemanticModel \<Rightarrow> CMS2SemanticModel" where
  "add_function func m = m\<lparr>functions := (functions m)(func_name func \<mapsto> func)\<rparr>"

definition get_function :: "CMS2SemanticModel \<Rightarrow> string \<Rightarrow> FunctionDefinition option" where
  "get_function m name = functions m name"

definition add_type :: "TypeDefinition \<Rightarrow> CMS2SemanticModel \<Rightarrow> CMS2SemanticModel" where
  "add_type typedef m =
     m\<lparr>types := (types m)(typ_name typedef \<mapsto> length (type_objs m)),
       type_objs := type_objs m @ [typedef]\<rparr>"

definition get_type :: "CMS2SemanticModel \<Rightarrow> string \<Rightarrow> TypeDefinition option" where
  "get_type m name = (case types m name of None \<Rightarrow> None | Some r \<Rightarrow> deref (type_objs m) r)"

section \<open>The parser\<close>

record CMS2SemanticParser =
  model :: CMS2SemanticModel
  lines :: "string list"
  current_line_num :: nat
  in_sys_dd :: bool
  current_sys_dd :: "string option"
  in_sys_proc :: bool
  current_sys_proc :: "string option"
  in_table_block :: bool
  current_table :: "string option"
  in_type_block :: bool
  current_type :: "string option"
  in_procedure :: bool
  current_procedure :: "string option"
  in_function :: bool
  current_function :: "string option"
  in_loc_dd :: bool

text \<open>\<^verbatim>\<open>CMS2SemanticParser.__init__\<close>\<close>

definition new_parser :: CMS2SemanticParser where
  "new_parser =
     \<lparr>model = new_model, lines = [], current_line_num = 0,
      in_sys_dd = False, current_sys_dd = None, in_sys_proc = False, current_sys_proc = None,
      in_table_block = False, current_table = None, in_type_block = False, current_type = None,
      in_procedure = False, current_procedure = None, in_function = False,
      current_function = None, in_loc_dd = False\<rparr>"

subsection \<open>Helpers for Python's idioms\<close>

text \<open>Running on after a step that can raise.\<close>

definition bind_err :: "py_error + 'a \<Rightarrow> ('a \<Rightarrow> py_error + 'b) \<Rightarrow> py_error + 'b" where
  "bind_err x f = (case x of Inl e \<Rightarrow> Inl e | Inr v \<Rightarrow> f v)"

text \<open>
  \<^verbatim>\<open>match.group(n)\<close> as the receiver of a method call or the argument of
  \<^verbatim>\<open>findall\<close>, and as the argument of \<^verbatim>\<open>int\<close>: both raise when the group is
  \<^verbatim>\<open>None\<close>.
\<close>

definition group_str :: "groups \<Rightarrow> nat \<Rightarrow> py_error + string" where
  "group_str m n = (case m n of None \<Rightarrow> Inl AttributeError | Some w \<Rightarrow> Inr w)"

definition group_int :: "groups \<Rightarrow> nat \<Rightarrow> py_error + int" where
  "group_int m n = (case m n of None \<Rightarrow> Inl TypeError | Some w \<Rightarrow> py_int w)"

text \<open>The truth value of an optional string: \<^verbatim>\<open>None\<close> and the empty string are false.\<close>

definition truthy :: "string option \<Rightarrow> bool" where
  "truthy x = (case x of None \<Rightarrow> False | Some w \<Rightarrow> w \<noteq> [])"

text \<open>\<^verbatim>\<open>x.upper() if x else d\<close>\<close>

definition upper_or :: "string option \<Rightarrow> string \<Rightarrow> string" where
  "upper_or x d = (case x of None \<Rightarrow> d | Some w \<Rightarrow> if w \<noteq> [] then upper w else d)"

text \<open>\<^verbatim>\<open>x if x else None\<close>\<close>

definition if_truthy :: "string option \<Rightarrow> string option" where
  "if_truthy x = (if truthy x then x else None)"

text \<open>\<^verbatim>\<open>x or ""\<close>\<close>

definition or_empty :: "string option \<Rightarrow> string" where
  "or_empty x = (case x of None \<Rightarrow> [] | Some w \<Rightarrow> w)"

text \<open>\<^verbatim>\<open>a or b\<close>\<close>

definition py_or :: "string option \<Rightarrow> string option \<Rightarrow> string option" where
  "py_or a b = (if truthy a then a else b)"

text \<open>\<^verbatim>\<open>int(x) if x else None\<close>\<close>

definition int_if :: "string option \<Rightarrow> py_error + int option" where
  "int_if x =
     (case x of
        None \<Rightarrow> Inr None
      | Some w \<Rightarrow> if w \<noteq> [] then bind_err (py_int w) (\<lambda>n. Inr (Some n)) else Inr None)"

text \<open>\<^verbatim>\<open>[p.strip().upper() for p in s.split(',') if p.strip()]\<close>\<close>

definition param_list :: "string \<Rightarrow> string list" where
  "param_list s = map (\<lambda>q. upper (strip q)) (filter (\<lambda>q. strip q \<noteq> []) (str_split s (CHR '','')))"

text \<open>
  The loop over the modifiers: the first one the statement starts with is taken off, and
  its name without the parentheses is the modifier.
\<close>

fun strip_modifier :: "string list \<Rightarrow> string \<Rightarrow> string option \<times> string" where
  "strip_modifier [] stmt = (None, stmt)"
| "strip_modifier (md # mds) stmt =
     (if startswith (upper stmt) md then (Some (butlast (tl md)), strip (drop (length md) stmt))
      else strip_modifier mds stmt)"

text \<open>
  \<^verbatim>\<open>cur and cur in d\<close>: when it holds, the name and the entry \<^verbatim>\<open>d[cur]\<close> that the
  guarded statement goes on to use.
\<close>

definition current_in :: "string option \<Rightarrow> (string \<rightharpoonup> 'v) \<Rightarrow> (string \<times> 'v) option" where
  "current_in cur d =
     (case cur of
        None \<Rightarrow> None
      | Some n \<Rightarrow> if n \<noteq> [] then map_option (Pair n) (d n) else None)"

definition all_modifiers :: "string list" where
  "all_modifiers = [''(EXTDEF)'', ''(EXTREF)'', ''(LOCREF)'', ''(TRANSREF)'']"

subsection \<open>The patterns of the declaration parsers\<close>

text \<open>\<^verbatim>\<open>'([A-Z][A-Z0-9]*)'\<close>, IGNORECASE\<close>

definition STATUS_VALUE_PATTERN :: rx where
  "STATUS_VALUE_PATTERN = seqs [Lit [apos], Grp 1 rx_name_plain, Lit [apos]]"

text \<open>\<^verbatim>\<open>([A-Z][A-Z0-9_]*)\s+SYS-DD\<close>, IGNORECASE\<close>

definition rx_sys_dd :: rx where
  "rx_sys_dd = seqs [Grp 1 rx_name, Plus is_space, Lit ''SYS-DD'']"

text \<open>\<^verbatim>\<open>([A-Z][A-Z0-9_]*)\s+SYS-PROC\<close>, IGNORECASE\<close>

definition rx_sys_proc :: rx where
  "rx_sys_proc = seqs [Grp 1 rx_name, Plus is_space, Lit ''SYS-PROC'']"

text \<open>\<^verbatim>\<open>VRBL\s*\(([^)]+)\)\s+(.+)\<close>, IGNORECASE\<close>

definition rx_vrbl_multi :: rx where
  "rx_vrbl_multi =
     seqs [Lit ''VRBL'', Star is_space, Lit ''('', Grp 1 (Plus (cls_not (CHR '')''))), Lit '')'',
           Plus is_space, Grp 2 (Plus cls_dot)]"

text \<open>\<^verbatim>\<open>VRBL\s+([A-Z][A-Z0-9_]*)\s+(.+)\<close>, IGNORECASE\<close>

definition rx_vrbl_single :: rx where
  "rx_vrbl_single =
     seqs [Lit ''VRBL'', Plus is_space, Grp 1 rx_name, Plus is_space, Grp 2 (Plus cls_dot)]"

text \<open>\<^verbatim>\<open>I\s+(\d+)\s+(S|U)\<close>\<close>

definition rx_int :: rx where
  "rx_int =
     seqs [Lit ''I'', Plus is_space, Grp 1 (Plus is_digit), Plus is_space,
           Grp 2 (Alt (Lit ''S'') (Lit ''U''))]"

text \<open>\<^verbatim>\<open>A\s+(\d+)\s+(S|U)\s+(\d+)\<close>\<close>

definition rx_fixed :: rx where
  "rx_fixed =
     seqs [Lit ''A'', Plus is_space, Grp 1 (Plus is_digit), Plus is_space,
           Grp 2 (Alt (Lit ''S'') (Lit ''U'')), Plus is_space, Grp 3 (Plus is_digit)]"

text \<open>\<^verbatim>\<open>F(\s*\([TRSD]\))?\<close>\<close>

definition rx_float :: rx where
  "rx_float =
     seqs [Lit ''F'', Opt (Grp 1 (seqs [Star is_space, Lit ''('', Cls (cls_of ''TRSD''), Lit '')'']))]"

text \<open>\<^verbatim>\<open>[HC]\s*(\d+)\<close>\<close>

definition rx_char :: rx where
  "rx_char = seqs [Cls (cls_of ''HC''), Star is_space, Grp 1 (Plus is_digit)]"

text \<open>\<^verbatim>\<open>\bP\s+(.+?)(?:\s|$)\<close>, IGNORECASE\<close>

definition rx_preset :: rx where
  "rx_preset =
     seqs [WordB, Lit ''P'', Plus is_space, Grp 1 (LazyPlus cls_dot), Alt (Cls is_space) Eol]"

text \<open>
  \<^verbatim>\<open>TABLE\s+([A-Z][A-Z0-9_]*)\s+([VH])\s*(NONE|MEDIUM|DENSE)?\s*(?:\(([^)]+)\))?\s*(?:INDIRECT\s+)?(\d+|[A-Z][A-Z0-9_]*)?\<close>,
  IGNORECASE
\<close>

definition rx_packing :: rx where
  "rx_packing = Alt (Lit ''NONE'') (Alt (Lit ''MEDIUM'') (Lit ''DENSE''))"

definition rx_table :: rx where
  "rx_table =
     seqs [Lit ''TABLE'', Plus is_space, Grp 1 rx_name, Plus is_space, Grp 2 (Cls (cls_of_ic ''VH'')),
           Star is_space, Opt (Grp 3 rx_packing), Star is_space,
           Opt (seqs [Lit ''('', Grp 4 (Plus (cls_not (CHR '')''))), Lit '')'']), Star is_space,
           Opt (seqs [Lit ''INDIRECT'', Plus is_space]),
           Opt (Grp 5 (Alt (Plus is_digit) rx_name))]"

text \<open>\<^verbatim>\<open>\bMJ\s+([A-Z][A-Z0-9]*)\<close>, IGNORECASE\<close>

definition rx_mj :: rx where
  "rx_mj = seqs [WordB, Lit ''MJ'', Plus is_space, Grp 1 rx_name_plain]"

text \<open>
  \<^verbatim>\<open>FIELD\s+([A-Z][A-Z0-9_]*)\s+([IAFBHC])\s*(\d+)?\s*(S|U)?\s*(\d+)?\s*(?:(\d+)\s+(\d+))?\s*(?:P\s+(.+))?\<close>,
  IGNORECASE
\<close>

definition rx_field :: rx where
  "rx_field =
     seqs [Lit ''FIELD'', Plus is_space, Grp 1 rx_name, Plus is_space,
           Grp 2 (Cls (cls_of_ic ''IAFBHC'')), Star is_space,
           Opt (Grp 3 (Plus is_digit)), Star is_space,
           Opt (Grp 4 (Alt (Lit ''S'') (Lit ''U''))), Star is_space,
           Opt (Grp 5 (Plus is_digit)), Star is_space,
           Opt (seqs [Grp 6 (Plus is_digit), Plus is_space, Grp 7 (Plus is_digit)]), Star is_space,
           Opt (seqs [Lit ''P'', Plus is_space, Grp 8 (Plus cls_dot)])]"

text \<open>\<^verbatim>\<open>TYPE\s+([A-Z][A-Z0-9_]*)\s+(.+)\<close>, IGNORECASE\<close>

definition rx_type_status :: rx where
  "rx_type_status =
     seqs [Lit ''TYPE'', Plus is_space, Grp 1 rx_name, Plus is_space, Grp 2 (Plus cls_dot)]"

text \<open>\<^verbatim>\<open>TYPE\s+([A-Z][A-Z0-9_]*)\s*(NONE|MEDIUM|DENSE)?\<close>, IGNORECASE\<close>

definition rx_type_struct :: rx where
  "rx_type_struct =
     seqs [Lit ''TYPE'', Plus is_space, Grp 1 rx_name, Star is_space, Opt (Grp 2 rx_packing)]"

text \<open>
  \<^verbatim>\<open>PROCEDURE\s+([A-Z][A-Z0-9_]*)\s*(?:INPUT\s+(.*?))?(?:\s+OUTPUT\s+(.*?))?(?:\s+EXIT\s+(.*))?\<close>,
  IGNORECASE and DOTALL
\<close>

definition rx_procedure :: rx where
  "rx_procedure =
     seqs [Lit ''PROCEDURE'', Plus is_space, Grp 1 rx_name, Star is_space,
           Opt (seqs [Lit ''INPUT'', Plus is_space, Grp 2 (LazyStar cls_any)]),
           Opt (seqs [Plus is_space, Lit ''OUTPUT'', Plus is_space, Grp 3 (LazyStar cls_any)]),
           Opt (seqs [Plus is_space, Lit ''EXIT'', Plus is_space, Grp 4 (Star cls_any)])]"

text \<open>\<^verbatim>\<open>EXEC-PROC\s+([A-Z][A-Z0-9_]*)\s*(?:INPUT\s+([^$]*))?\<close>, IGNORECASE\<close>

definition rx_exec_proc :: rx where
  "rx_exec_proc =
     seqs [Lit ''EXEC-PROC'', Plus is_space, Grp 1 rx_name, Star is_space,
           Opt (seqs [Lit ''INPUT'', Plus is_space, Grp 2 (Star (cls_not (CHR ''$'')))])]"

text \<open>\<^verbatim>\<open>FUNCTION\s+([A-Z][A-Z0-9_]*)\s*\(([^)]*)\)\s*(.+)?\<close>, IGNORECASE\<close>

definition rx_function :: rx where
  "rx_function =
     seqs [Lit ''FUNCTION'', Plus is_space, Grp 1 rx_name, Star is_space, Lit ''('',
           Grp 2 (Star (cls_not (CHR '')''))), Lit '')'', Star is_space, Opt (Grp 3 (Plus cls_dot))]"

subsection \<open>Comments and statements\<close>

text \<open>
  \<^verbatim>\<open>_remove_comments\<close>: the loop over the index \<open>i\<close> as a recursion over what is left
  of the line from \<open>i\<close> on, with the flag \<^verbatim>\<open>in_comment\<close>.
\<close>

fun remove_comments_loop :: "bool \<Rightarrow> string \<Rightarrow> string" where
  "remove_comments_loop in_comment [] = []"
| "remove_comments_loop in_comment [c] = (if \<not> in_comment then [c] else [])"
| "remove_comments_loop in_comment (c1 # c2 # rest) =
     (if [c1, c2] = comment_mark then remove_comments_loop (\<not> in_comment) rest
      else if \<not> in_comment then c1 # remove_comments_loop in_comment (c2 # rest)
      else remove_comments_loop in_comment (c2 # rest))"

definition remove_comments :: "string \<Rightarrow> string" where
  "remove_comments line = remove_comments_loop False line"

subsection \<open>Blocks\<close>

text \<open>
  Each declaration parser has two parts: it first builds the entity from the groups of the
  match, where a conversion can raise, and then stores it in the model and sets the
  parser's flags. The two parts are separate definitions here (\<open>\<dots>_definition\<close> and
  \<open>store_\<dots>\<close>, for a block \<open>open_\<dots>\<close>); where the source's second part uses the local
  variable \<^verbatim>\<open>name\<close>, which it has just passed to the constructor, the model reads the
  name field of the entity.
\<close>

definition open_sys_dd :: "string \<Rightarrow> nat \<Rightarrow> CMS2SemanticParser \<Rightarrow> CMS2SemanticParser" where
  "open_sys_dd name line_num p =
     (let block = \<lparr>dd_name = name, dd_variables = Map.empty, dd_tables = Map.empty,
                   dd_types = Map.empty, dd_line_start = line_num, dd_line_end = 0\<rparr>
      in p\<lparr>model := (model p)\<lparr>sys_data_blocks := (sys_data_blocks (model p))(name \<mapsto> block),
                              current_scope := name\<rparr>,
           current_sys_dd := Some name, in_sys_dd := True\<rparr>)"

definition parse_sys_dd_start ::
  "string \<Rightarrow> nat \<Rightarrow> CMS2SemanticParser \<Rightarrow> py_error + CMS2SemanticParser" where
  "parse_sys_dd_start statement line_num p =
     (case re_match True rx_sys_dd statement of
        None \<Rightarrow> Inr p
      | Some m \<Rightarrow> bind_err (group_str m 1) (\<lambda>w. Inr (open_sys_dd (upper w) line_num p)))"

definition handle_end_sys_dd :: "string \<Rightarrow> nat \<Rightarrow> CMS2SemanticParser \<Rightarrow> CMS2SemanticParser" where
  "handle_end_sys_dd statement line_num p =
     (let m = model p;
          m1 = (case current_in (current_sys_dd p) (sys_data_blocks m) of
                  None \<Rightarrow> m
                | Some (cur, b) \<Rightarrow>
                    m\<lparr>sys_data_blocks := (sys_data_blocks m)(cur \<mapsto> b\<lparr>dd_line_end := line_num\<rparr>)\<rparr>)
      in p\<lparr>model := m1\<lparr>current_scope := ''GLOBAL''\<rparr>, in_sys_dd := False, current_sys_dd := None\<rparr>)"

definition open_sys_proc :: "string \<Rightarrow> bool \<Rightarrow> nat \<Rightarrow> CMS2SemanticParser \<Rightarrow> CMS2SemanticParser" where
  "open_sys_proc name is_reentrant line_num p =
     (let block = \<lparr>sp_name = name, sp_is_reentrant = is_reentrant,
                   sp_procedures = Map.empty, sp_functions = Map.empty,
                   sp_local_data = Map.empty, sp_line_start = line_num, sp_line_end = 0\<rparr>
      in p\<lparr>model := (model p)\<lparr>sys_proc_blocks := (sys_proc_blocks (model p))(name \<mapsto> block),
                              current_scope := name\<rparr>,
           current_sys_proc := Some name, in_sys_proc := True\<rparr>)"

definition parse_sys_proc_start ::
  "string \<Rightarrow> nat \<Rightarrow> CMS2SemanticParser \<Rightarrow> py_error + CMS2SemanticParser" where
  "parse_sys_proc_start statement line_num p =
     (let is_reentrant = contains (upper statement) ''SYS-PROC-REN''
      in case re_match True rx_sys_proc statement of
           None \<Rightarrow> Inr p
         | Some m \<Rightarrow>
             bind_err (group_str m 1) (\<lambda>w. Inr (open_sys_proc (upper w) is_reentrant line_num p)))"

definition handle_end_sys_proc :: "string \<Rightarrow> nat \<Rightarrow> CMS2SemanticParser \<Rightarrow> CMS2SemanticParser" where
  "handle_end_sys_proc statement line_num p =
     (let m = model p;
          m1 = (case current_in (current_sys_proc p) (sys_proc_blocks m) of
                  None \<Rightarrow> m
                | Some (cur, b) \<Rightarrow>
                    m\<lparr>sys_proc_blocks := (sys_proc_blocks m)(cur \<mapsto> b\<lparr>sp_line_end := line_num\<rparr>)\<rparr>)
      in p\<lparr>model := m1\<lparr>current_scope := ''GLOBAL''\<rparr>, in_sys_proc := False, current_sys_proc := None\<rparr>)"

subsection \<open>Variables\<close>

text \<open>
  The first part of \<^verbatim>\<open>_create_variable\<close>. The local variables \<^verbatim>\<open>var_type\<close>,
  \<^verbatim>\<open>bits\<close>, \<^verbatim>\<open>signed\<close>, \<^verbatim>\<open>frac_bits\<close> and \<^verbatim>\<open>char_length\<close> are assigned
  by one test after the other, a later test overwriting an earlier one; \<open>t1\<close> to \<open>t6\<close>
  are the successive values of \<^verbatim>\<open>var_type\<close>. \<open>parent_block\<close> is
  \<^verbatim>\<open>self.current_sys_dd or self.current_sys_proc\<close>.
\<close>

definition variable_definition ::
  "string \<Rightarrow> string \<Rightarrow> string option \<Rightarrow> nat \<Rightarrow> string option \<Rightarrow> py_error + VariableDefinition"
where
  "variable_definition name type_spec modifier line_num parent_block =
     (let type_upper = strip (upper type_spec);
          int_match = re_match False rx_int type_upper;
          fixed_match = re_match False rx_fixed type_upper;
          float_match = re_match False rx_float type_upper;
          char_match = re_match False rx_char type_upper
      in
      bind_err
        (case int_match of
           None \<Rightarrow> Inr (UNKNOWN, None, True)
         | Some im \<Rightarrow> bind_err (group_int im 1) (\<lambda>b. Inr (INTEGER, Some b, im 2 = Some ''S'')))
        (\<lambda>(t1, bits1, signed1).
      bind_err
        (case fixed_match of
           None \<Rightarrow> Inr (t1, bits1, signed1, None)
         | Some fm \<Rightarrow>
             bind_err (group_int fm 1) (\<lambda>b.
             bind_err (group_int fm 3) (\<lambda>f. Inr (FIXED, Some b, fm 2 = Some ''S'', Some f))))
        (\<lambda>(t2, bits, signed, frac_bits).
      let t3 = (if float_match \<noteq> None \<and> int_match = None \<and> fixed_match = None then FLOAT else t2);
          t4 = (if startswith type_upper ''B'' \<and> \<not> startswith type_upper ''BY'' then BOOLEAN else t3)
      in
      bind_err
        (case char_match of
           None \<Rightarrow> Inr (t4, None)
         | Some cm \<Rightarrow> bind_err (group_int cm 1) (\<lambda>n. Inr (CHAR_T, Some n)))
        (\<lambda>(t5, char_length).
      let status_values = (if apos \<in> set type_spec then findall True STATUS_VALUE_PATTERN type_spec else []);
          t6 = (if status_values \<noteq> [] then STATUS else t5);
          preset_value = (case re_search True rx_preset type_spec of None \<Rightarrow> None | Some pm \<Rightarrow> pm 1)
      in Inr \<lparr>var_name = name, var_type = t6, var_bits = bits, var_signed = signed,
               var_frac_bits = frac_bits, var_char_length = char_length,
               var_status_values = status_values, var_is_preset = (preset_value \<noteq> None),
               var_preset_value = preset_value, var_modifier = modifier,
               var_line_number = line_num, var_column_start = 0, var_column_end = 0,
               var_parent_block = parent_block\<rparr>))))"

text \<open>The second part: the variable goes into the model, the open SYS-DD and the open procedure.\<close>

definition store_variable :: "VariableDefinition \<Rightarrow> CMS2SemanticParser \<Rightarrow> CMS2SemanticParser" where
  "store_variable var p =
     (let name = var_name var;
          m1 = add_variable var (model p);
          m2 = (case current_in (current_sys_dd p) (sys_data_blocks m1) of
                  None \<Rightarrow> m1
                | Some (cur, b) \<Rightarrow>
                    m1\<lparr>sys_data_blocks :=
                         (sys_data_blocks m1)(cur \<mapsto> b\<lparr>dd_variables := (dd_variables b)(name \<mapsto> var)\<rparr>)\<rparr>);
          m3 = (case current_in (current_procedure p) (procedures m2) of
                  None \<Rightarrow> m2
                | Some (cur, r) \<Rightarrow>
                    m2\<lparr>proc_objs :=
                         obj_update r (\<lambda>pr. pr\<lparr>proc_local_vars := (proc_local_vars pr)(name \<mapsto> var)\<rparr>)
                           (proc_objs m2)\<rparr>)
      in p\<lparr>model := m3\<rparr>)"

definition create_variable ::
  "string \<Rightarrow> string \<Rightarrow> string option \<Rightarrow> nat \<Rightarrow> CMS2SemanticParser \<Rightarrow> py_error + CMS2SemanticParser"
where
  "create_variable name type_spec modifier line_num p =
     bind_err
       (variable_definition name type_spec modifier line_num
          (py_or (current_sys_dd p) (current_sys_proc p)))
       (\<lambda>var. Inr (store_variable var p))"

text \<open>The loop \<^verbatim>\<open>for name in names\<close> of the grouped form.\<close>

fun create_variables ::
  "string list \<Rightarrow> string \<Rightarrow> string option \<Rightarrow> nat \<Rightarrow> CMS2SemanticParser \<Rightarrow> py_error + CMS2SemanticParser"
where
  "create_variables [] type_spec modifier line_num p = Inr p"
| "create_variables (name # names) type_spec modifier line_num p =
     bind_err (create_variable name type_spec modifier line_num p)
       (create_variables names type_spec modifier line_num)"

definition parse_vrbl_declaration ::
  "string \<Rightarrow> nat \<Rightarrow> CMS2SemanticParser \<Rightarrow> py_error + CMS2SemanticParser" where
  "parse_vrbl_declaration statement line_num p =
     (let (modifier, stmt) = strip_modifier all_modifiers (strip statement)
      in case re_match True rx_vrbl_multi stmt of
           Some mm \<Rightarrow>
             bind_err (group_str mm 1) (\<lambda>g1.
             bind_err (group_str mm 2) (\<lambda>g2.
               let names = map strip (str_split g1 (CHR '',''));
                   type_spec = strip g2
               in create_variables names type_spec modifier line_num p))
         | None \<Rightarrow>
             (case re_match True rx_vrbl_single stmt of
                Some sm \<Rightarrow>
                  bind_err (group_str sm 1) (\<lambda>g1.
                  bind_err (group_str sm 2) (\<lambda>g2.
                    create_variable (upper g1) (strip g2) modifier line_num p))
              | None \<Rightarrow> Inr p))"

subsection \<open>Tables and fields\<close>

definition table_definition :: "groups \<Rightarrow> string \<Rightarrow> nat \<Rightarrow> py_error + TableDefinition" where
  "table_definition m stmt line_num =
     bind_err (group_str m 1) (\<lambda>g1.
     let name = upper g1;
         table_type = upper_or (m 2) ''V'';
         packing = upper_or (m 3) ''NONE'';
         type_spec = if_truthy (m 4);
         count_str = if_truthy (m 5)
     in
     bind_err
       (case count_str of
          None \<Rightarrow> Inr None
        | Some w \<Rightarrow> if isdigit w then bind_err (py_int w) (\<lambda>n. Inr (Some n)) else Inr None)
       (\<lambda>item_count.
     let is_indirect = contains (upper stmt) ''INDIRECT''
     in
     bind_err
       (case re_search True rx_mj stmt of
          None \<Rightarrow> Inr None
        | Some mj \<Rightarrow> bind_err (group_str mj 1) (\<lambda>w. Inr (Some (upper w))))
       (\<lambda>major_index.
     Inr \<lparr>tbl_name = name, tbl_table_type = table_type, tbl_packing = packing,
          tbl_item_count = item_count, tbl_item_typed = (type_spec \<noteq> None),
          tbl_type_spec = type_spec, tbl_fields = Map.empty,
          tbl_is_indirect = is_indirect, tbl_major_index = major_index,
          tbl_modifier = None, tbl_line_start = line_num, tbl_line_end = 0\<rparr>)))"

definition store_table :: "TableDefinition \<Rightarrow> CMS2SemanticParser \<Rightarrow> CMS2SemanticParser" where
  "store_table table p =
     (let name = tbl_name table;
          r = length (table_objs (model p));
          m1 = add_table table (model p);
          m2 = (case current_in (current_sys_dd p) (sys_data_blocks m1) of
                  None \<Rightarrow> m1
                | Some (cur, b) \<Rightarrow>
                    m1\<lparr>sys_data_blocks :=
                         (sys_data_blocks m1)(cur \<mapsto> b\<lparr>dd_tables := (dd_tables b)(name \<mapsto> r)\<rparr>)\<rparr>)
      in p\<lparr>model := m2, current_table := Some name, in_table_block := True\<rparr>)"

definition parse_table_declaration ::
  "string \<Rightarrow> nat \<Rightarrow> CMS2SemanticParser \<Rightarrow> py_error + CMS2SemanticParser" where
  "parse_table_declaration statement line_num p =
     (let stmt = strip statement
      in case re_match True rx_table stmt of
           None \<Rightarrow> Inr p
         | Some m \<Rightarrow> bind_err (table_definition m stmt line_num) (\<lambda>table. Inr (store_table table p)))"

definition handle_end_table :: "string \<Rightarrow> nat \<Rightarrow> CMS2SemanticParser \<Rightarrow> CMS2SemanticParser" where
  "handle_end_table statement line_num p =
     (let m = model p;
          m1 = (case current_in (current_table p) (tables m) of
                  None \<Rightarrow> m
                | Some (cur, r) \<Rightarrow>
                    m\<lparr>table_objs := obj_update r (\<lambda>t. t\<lparr>tbl_line_end := line_num\<rparr>) (table_objs m)\<rparr>)
      in p\<lparr>model := m1, in_table_block := False, current_table := None\<rparr>)"

definition type_map :: "string \<Rightarrow> CMS2Type" where
  "type_map type_char =
     (if type_char = ''I'' then INTEGER
      else if type_char = ''A'' then FIXED
      else if type_char = ''F'' then FLOAT
      else if type_char = ''B'' then BOOLEAN
      else if type_char = ''H'' then CHAR_T
      else if type_char = ''C'' then CHAR_T
      else UNKNOWN)"

definition field_definition :: "groups \<Rightarrow> nat \<Rightarrow> string option \<Rightarrow> py_error + FieldDefinition" where
  "field_definition m line_num parent_table =
     bind_err (group_str m 1) (\<lambda>g1.
     bind_err (group_str m 2) (\<lambda>g2.
     let name = upper g1; type_char = upper g2
     in
     bind_err (int_if (m 3)) (\<lambda>bits.
     let signed = (if truthy (m 4) then m 4 \<noteq> Some ''U'' else True)
     in
     bind_err (int_if (m 5)) (\<lambda>frac_bits.
     bind_err (int_if (m 6)) (\<lambda>start_word.
     bind_err (int_if (m 7)) (\<lambda>start_bit.
     let preset = m 8
     in Inr \<lparr>fld_name = name, fld_field_type = type_map type_char, fld_bits = bits,
              fld_signed = signed, fld_frac_bits = frac_bits,
              fld_char_length = (if type_char = ''H'' \<or> type_char = ''C'' then bits else None),
              fld_start_word = start_word, fld_start_bit = start_bit,
              fld_preset_values = (case if_truthy preset of None \<Rightarrow> [] | Some w \<Rightarrow> [w]),
              fld_line_number = line_num, fld_parent_table = parent_table\<rparr>))))))"

text \<open>\<^verbatim>\<open>if self.current_table in self.model.tables: \<dots> .fields[name] = field\<close>\<close>

definition store_field :: "FieldDefinition \<Rightarrow> CMS2SemanticParser \<Rightarrow> CMS2SemanticParser" where
  "store_field fld p =
     (let m0 = model p;
          m1 = (case current_table p of
                  None \<Rightarrow> m0
                | Some cur \<Rightarrow>
                    (case tables m0 cur of
                       None \<Rightarrow> m0
                     | Some r \<Rightarrow>
                         m0\<lparr>table_objs :=
                              obj_update r (\<lambda>t. t\<lparr>tbl_fields := (tbl_fields t)(fld_name fld \<mapsto> fld)\<rparr>)
                                (table_objs m0)\<rparr>))
      in p\<lparr>model := m1\<rparr>)"

definition parse_field_declaration ::
  "string \<Rightarrow> nat \<Rightarrow> CMS2SemanticParser \<Rightarrow> py_error + CMS2SemanticParser" where
  "parse_field_declaration statement line_num p =
     (let stmt = strip statement
      in case re_match True rx_field stmt of
           None \<Rightarrow> Inr p
         | Some m \<Rightarrow>
             if \<not> truthy (current_table p) then Inr p
             else bind_err (field_definition m line_num (current_table p))
                    (\<lambda>fld. Inr (store_field fld p)))"

subsection \<open>Types\<close>

definition status_type_definition :: "groups \<Rightarrow> nat \<Rightarrow> py_error + TypeDefinition" where
  "status_type_definition m line_num =
     bind_err (group_str m 1) (\<lambda>g1.
     bind_err (case m 2 of None \<Rightarrow> Inl TypeError | Some w \<Rightarrow> Inr w) (\<lambda>rest.
     let name = upper g1;
         status_values = findall True STATUS_VALUE_PATTERN rest
     in Inr \<lparr>typ_name = name, typ_base_type = None, typ_packing = ''NONE'',
              typ_status_values = status_values, typ_fields = Map.empty,
              typ_line_start = line_num, typ_line_end = 0\<rparr>))"

definition store_status_type :: "TypeDefinition \<Rightarrow> CMS2SemanticParser \<Rightarrow> CMS2SemanticParser" where
  "store_status_type typedef p =
     (let name = typ_name typedef;
          r = length (type_objs (model p));
          m1 = add_type typedef (model p);
          m2 = (case current_in (current_sys_dd p) (sys_data_blocks m1) of
                  None \<Rightarrow> m1
                | Some (cur, b) \<Rightarrow>
                    m1\<lparr>sys_data_blocks :=
                         (sys_data_blocks m1)(cur \<mapsto> b\<lparr>dd_types := (dd_types b)(name \<mapsto> r)\<rparr>)\<rparr>)
      in p\<lparr>model := m2\<rparr>)"

definition struct_type_definition :: "groups \<Rightarrow> nat \<Rightarrow> py_error + TypeDefinition" where
  "struct_type_definition m line_num =
     bind_err (group_str m 1) (\<lambda>g1.
     let name = upper g1;
         packing = upper_or (m 2) ''NONE''
     in Inr \<lparr>typ_name = name, typ_base_type = None, typ_packing = packing,
              typ_status_values = [], typ_fields = Map.empty,
              typ_line_start = line_num, typ_line_end = 0\<rparr>)"

definition store_struct_type :: "TypeDefinition \<Rightarrow> CMS2SemanticParser \<Rightarrow> CMS2SemanticParser" where
  "store_struct_type typedef p =
     p\<lparr>model := add_type typedef (model p), current_type := Some (typ_name typedef),
       in_type_block := True\<rparr>"

definition parse_type_declaration ::
  "string \<Rightarrow> nat \<Rightarrow> CMS2SemanticParser \<Rightarrow> py_error + CMS2SemanticParser" where
  "parse_type_declaration statement line_num p =
     (let stmt = strip statement
      in if apos \<in> set stmt then
           (case re_match True rx_type_status stmt of
              None \<Rightarrow> Inr p
            | Some m \<Rightarrow>
                bind_err (status_type_definition m line_num)
                  (\<lambda>typedef. Inr (store_status_type typedef p)))
         else
           (case re_match True rx_type_struct stmt of
              None \<Rightarrow> Inr p
            | Some m \<Rightarrow>
                bind_err (struct_type_definition m line_num)
                  (\<lambda>typedef. Inr (store_struct_type typedef p))))"

definition handle_end_type :: "string \<Rightarrow> nat \<Rightarrow> CMS2SemanticParser \<Rightarrow> CMS2SemanticParser" where
  "handle_end_type statement line_num p =
     (let m = model p;
          m1 = (case current_in (current_type p) (types m) of
                  None \<Rightarrow> m
                | Some (cur, r) \<Rightarrow>
                    m\<lparr>type_objs := obj_update r (\<lambda>t. t\<lparr>typ_line_end := line_num\<rparr>) (type_objs m)\<rparr>)
      in p\<lparr>model := m1, in_type_block := False, current_type := None\<rparr>)"

subsection \<open>Procedures and functions\<close>

definition procedure_definition ::
  "groups \<Rightarrow> string option \<Rightarrow> nat \<Rightarrow> py_error + ProcedureDefinition" where
  "procedure_definition m modifier line_num =
     bind_err (group_str m 1) (\<lambda>g1.
     let name = upper g1;
         input_str = or_empty (m 2);
         output_str = or_empty (m 3);
         exit_str = or_empty (m 4)
     in Inr \<lparr>proc_name = name, proc_is_exec = False,
              proc_input_params = param_list input_str,
              proc_output_params = param_list output_str,
              proc_exit_params = param_list exit_str,
              proc_modifier = modifier, proc_local_vars = Map.empty,
              proc_line_start = line_num, proc_line_end = 0, proc_body_start = 0\<rparr>)"

definition store_procedure :: "ProcedureDefinition \<Rightarrow> CMS2SemanticParser \<Rightarrow> CMS2SemanticParser" where
  "store_procedure proc p =
     (let name = proc_name proc;
          r = length (proc_objs (model p));
          m1 = add_procedure proc (model p);
          m2 = (case current_in (current_sys_proc p) (sys_proc_blocks m1) of
                  None \<Rightarrow> m1
                | Some (cur, b) \<Rightarrow>
                    m1\<lparr>sys_proc_blocks :=
                         (sys_proc_blocks m1)(cur \<mapsto> b\<lparr>sp_procedures := (sp_procedures b)(name \<mapsto> r)\<rparr>)\<rparr>)
      in p\<lparr>model := m2, current_procedure := Some name, in_procedure := True\<rparr>)"

definition parse_procedure_declaration ::
  "string \<Rightarrow> nat \<Rightarrow> CMS2SemanticParser \<Rightarrow> py_error + CMS2SemanticParser" where
  "parse_procedure_declaration statement line_num p =
     (let (modifier, stmt) = strip_modifier all_modifiers (strip statement)
      in case re_match True rx_procedure stmt of
           None \<Rightarrow> Inr p
         | Some m \<Rightarrow>
             bind_err (procedure_definition m modifier line_num)
               (\<lambda>proc. Inr (store_procedure proc p)))"

definition exec_proc_definition ::
  "groups \<Rightarrow> string option \<Rightarrow> nat \<Rightarrow> py_error + ProcedureDefinition" where
  "exec_proc_definition m modifier line_num =
     bind_err (group_str m 1) (\<lambda>g1.
     let name = upper g1;
         input_str = or_empty (m 2)
     in Inr \<lparr>proc_name = name, proc_is_exec = True,
              proc_input_params = param_list input_str,
              proc_output_params = [], proc_exit_params = [],
              proc_modifier = modifier, proc_local_vars = Map.empty,
              proc_line_start = line_num, proc_line_end = 0, proc_body_start = 0\<rparr>)"

definition store_exec_proc :: "ProcedureDefinition \<Rightarrow> CMS2SemanticParser \<Rightarrow> CMS2SemanticParser" where
  "store_exec_proc proc p =
     p\<lparr>model := add_procedure proc (model p), current_procedure := Some (proc_name proc),
       in_procedure := True\<rparr>"

definition parse_exec_proc_declaration ::
  "string \<Rightarrow> nat \<Rightarrow> CMS2SemanticParser \<Rightarrow> py_error + CMS2SemanticParser" where
  "parse_exec_proc_declaration statement line_num p =
     (let (modifier, stmt) = strip_modifier [''(EXTDEF)'', ''(EXTREF)''] (strip statement)
      in case re_match True rx_exec_proc stmt of
           None \<Rightarrow> Inr p
         | Some m \<Rightarrow>
             bind_err (exec_proc_definition m modifier line_num)
               (\<lambda>proc. Inr (store_exec_proc proc p)))"

definition handle_end_proc :: "string \<Rightarrow> nat \<Rightarrow> CMS2SemanticParser \<Rightarrow> CMS2SemanticParser" where
  "handle_end_proc statement line_num p =
     (let m = model p;
          m1 = (case current_in (current_procedure p) (procedures m) of
                  None \<Rightarrow> m
                | Some (cur, r) \<Rightarrow>
                    m\<lparr>proc_objs := obj_update r (\<lambda>pr. pr\<lparr>proc_line_end := line_num\<rparr>) (proc_objs m)\<rparr>)
      in p\<lparr>model := m1, in_procedure := False, current_procedure := None\<rparr>)"

definition function_definition ::
  "groups \<Rightarrow> string option \<Rightarrow> nat \<Rightarrow> py_error + FunctionDefinition" where
  "function_definition m modifier line_num =
     bind_err (group_str m 1) (\<lambda>g1.
     let name = upper g1;
         params_str = or_empty (m 2);
         return_type = map_option strip (if_truthy (m 3))
     in Inr \<lparr>func_name = name, func_input_params = param_list params_str,
              func_return_type = return_type, func_modifier = modifier,
              func_local_vars = Map.empty, func_line_start = line_num, func_line_end = 0\<rparr>)"

definition store_function :: "FunctionDefinition \<Rightarrow> CMS2SemanticParser \<Rightarrow> CMS2SemanticParser" where
  "store_function func p =
     p\<lparr>model := add_function func (model p), current_function := Some (func_name func),
       in_function := True\<rparr>"

definition parse_function_declaration ::
  "string \<Rightarrow> nat \<Rightarrow> CMS2SemanticParser \<Rightarrow> py_error + CMS2SemanticParser" where
  "parse_function_declaration statement line_num p =
     (let (modifier, stmt) = strip_modifier all_modifiers (strip statement)
      in case re_match True rx_function stmt of
           None \<Rightarrow> Inr p
         | Some m \<Rightarrow>
             bind_err (function_definition m modifier line_num)
               (\<lambda>func. Inr (store_function func p)))"

definition handle_end_function :: "string \<Rightarrow> nat \<Rightarrow> CMS2SemanticParser \<Rightarrow> CMS2SemanticParser" where
  "handle_end_function statement line_num p =
     (let m = model p;
          m1 = (case current_in (current_function p) (functions m) of
                  None \<Rightarrow> m
                | Some (cur, f) \<Rightarrow> m\<lparr>functions := (functions m)(cur \<mapsto> f\<lparr>func_line_end := line_num\<rparr>)\<rparr>)
      in p\<lparr>model := m1, in_function := False, current_function := None\<rparr>)"

definition parse_cmode :: "string \<Rightarrow> nat \<Rightarrow> CMS2SemanticParser \<Rightarrow> CMS2SemanticParser" where
  "parse_cmode statement line_num p =
     (if contains (upper statement) ''O'' then p\<lparr>model := (model p)\<lparr>constant_mode := ''O''\<rparr>\<rparr>
      else p\<lparr>model := (model p)\<lparr>constant_mode := ''D''\<rparr>\<rparr>)"

subsection \<open>The statement classifier and the parse loop\<close>

definition parse_statement ::
  "string \<Rightarrow> nat \<Rightarrow> CMS2SemanticParser \<Rightarrow> py_error + CMS2SemanticParser" where
  "parse_statement statement line_num p =
     (let up = strip (upper statement)
      in if contains up ''SYS-DD'' \<and> \<not> contains up ''END-SYS-DD'' then
           parse_sys_dd_start statement line_num p
         else if contains up ''END-SYS-DD'' then Inr (handle_end_sys_dd statement line_num p)
         else if contains up ''SYS-PROC'' \<and> \<not> contains up ''END-SYS-PROC'' then
           parse_sys_proc_start statement line_num p
         else if contains up ''END-SYS-PROC'' then Inr (handle_end_sys_proc statement line_num p)
         else if startswith up ''LOC-DD'' \<or> contains up '' LOC-DD'' then Inr (p\<lparr>in_loc_dd := True\<rparr>)
         else if contains up ''END-LOC-DD'' then Inr (p\<lparr>in_loc_dd := False\<rparr>)
         else if startswith up ''VRBL'' \<or> contains up '' VRBL '' \<or> startswith up ''(EXTDEF) VRBL''
                 \<or> startswith up ''(EXTREF) VRBL'' \<or> startswith up ''(LOCREF) VRBL''
                 \<or> startswith up ''(TRANSREF) VRBL'' then
           parse_vrbl_declaration statement line_num p
         else if startswith up ''TABLE'' \<or> contains up '' TABLE '' then
           parse_table_declaration statement line_num p
         else if contains up ''END-TABLE'' then Inr (handle_end_table statement line_num p)
         else if startswith up ''FIELD'' then parse_field_declaration statement line_num p
         else if startswith up ''TYPE'' \<and> \<not> contains up ''END-TYPE'' then
           parse_type_declaration statement line_num p
         else if contains up ''END-TYPE'' then Inr (handle_end_type statement line_num p)
         else if startswith up ''PROCEDURE'' \<or> contains up '' PROCEDURE ''
                 \<or> startswith up ''(EXTDEF) PROCEDURE'' \<or> startswith up ''(EXTREF) PROCEDURE'' then
           parse_procedure_declaration statement line_num p
         else if startswith up ''EXEC-PROC'' \<or> contains up '' EXEC-PROC '' then
           parse_exec_proc_declaration statement line_num p
         else if contains up ''END-PROC'' then Inr (handle_end_proc statement line_num p)
         else if startswith up ''FUNCTION'' \<or> contains up '' FUNCTION '' then
           parse_function_declaration statement line_num p
         else if contains up ''END-FUNCTION'' then Inr (handle_end_function statement line_num p)
         else if startswith up ''CMODE'' then Inr (parse_cmode statement line_num p)
         else Inr p)"

lemma str_find_less: "str_find s ch = Some n \<Longrightarrow> n < length s"
  by (induction s arbitrary: n) (auto split: if_splits)

lemma length_strip_le: "length (strip s) \<le> length s"
proof -
  have "length (strip s) = length (dropWhile is_space (rev (dropWhile is_space s)))"
    by (simp add: strip_def)
  also have "\<dots> \<le> length (rev (dropWhile is_space s))"
    by (rule length_dropWhile_le)
  also have "\<dots> \<le> length s"
    by (simp add: length_dropWhile_le)
  finally show ?thesis .
qed

text \<open>
  The inner loop \<^verbatim>\<open>while '$' in statement_buffer\<close>: each round cuts the buffer at
  the first dollar, hands the statement before it (if not empty) to the classifier with
  the number of the current line, and keeps the rest. It returns the buffer left over.
\<close>

function drain ::
  "string \<Rightarrow> nat \<Rightarrow> CMS2SemanticParser \<Rightarrow> py_error + (string \<times> CMS2SemanticParser)" where
  "drain statement_buffer i p =
     (case str_find statement_buffer (CHR ''$'') of
        None \<Rightarrow> Inr (statement_buffer, p)
      | Some dollar_pos \<Rightarrow>
          (let statement = strip (take dollar_pos statement_buffer);
               rest = strip (drop (dollar_pos + 1) statement_buffer)
           in if statement \<noteq> [] then
                (case parse_statement statement i p of
                   Inl e \<Rightarrow> Inl e
                 | Inr p' \<Rightarrow> drain rest i p')
              else drain rest i p))"
  by pat_completeness auto
termination
proof (relation "measure (\<lambda>(b, i, p). length b)")
  show "wf (measure (\<lambda>(b, i, p). length b))" by simp
next
  fix statement_buffer :: string and i :: nat and p x2 xa xb x2a
  assume "str_find statement_buffer (CHR ''$'') = Some x2"
    and "xb = strip (drop (x2 + 1) statement_buffer)"
  then show "((xb, i, x2a), statement_buffer, i, p) \<in> measure (\<lambda>(b, i, p). length b)"
    using length_strip_le [of "drop (x2 + 1) statement_buffer"] str_find_less [of statement_buffer "CHR ''$''" x2]
    by simp
next
  fix statement_buffer :: string and i :: nat and p :: CMS2SemanticParser and x2 xa xb
  assume "str_find statement_buffer (CHR ''$'') = Some x2"
    and "xb = strip (drop (x2 + 1) statement_buffer)"
  then show "((xb, i, p), statement_buffer, i, p) \<in> measure (\<lambda>(b, i, p). length b)"
    using length_strip_le [of "drop (x2 + 1) statement_buffer"] str_find_less [of statement_buffer "CHR ''$''" x2]
    by simp
qed

declare drain.simps [simp del]

text \<open>The loop \<^verbatim>\<open>for i, line in enumerate(self.lines)\<close>, from line \<open>i\<close> on.\<close>

fun parse_lines ::
  "string list \<Rightarrow> nat \<Rightarrow> string \<Rightarrow> CMS2SemanticParser \<Rightarrow> py_error + CMS2SemanticParser" where
  "parse_lines [] i statement_buffer p = Inr p"
| "parse_lines (line # rest) i statement_buffer p =
     (let p1 = p\<lparr>current_line_num := i\<rparr>;
          stripped = strip (remove_comments line)
      in if stripped = [] then parse_lines rest (Suc i) statement_buffer p1
         else
           (case drain (statement_buffer @ '' '' @ stripped) i p1 of
              Inl e \<Rightarrow> Inl e
            | Inr (buffer', p2) \<Rightarrow> parse_lines rest (Suc i) buffer' p2))"

text \<open>
  \<^verbatim>\<open>parse\<close> first replaces the model by a fresh one and resets every flag, so what it
  computes does not depend on the parser it is called on: it is the parser after the run,
  whose \<open>model\<close> is the value the method returns, or the exception that ended the run.
\<close>

definition parse :: "string \<Rightarrow> py_error + CMS2SemanticParser" where
  "parse cms2_code =
     (let ls = str_split cms2_code (CHR 0x0A)
      in parse_lines ls 0 [] (new_parser\<lparr>lines := ls\<rparr>))"

section \<open>The query layer\<close>

definition RESERVED_WORDS :: "string list" where
  "RESERVED_WORDS =
     [''ABS'', ''ALG'', ''AND'', ''BASE'', ''BEGIN'', ''BIT'', ''BY'', ''CAT'', ''CHAR'',
      ''CHECKID'', ''CIRC'', ''CLOSE'', ''CMODE'', ''COMMENT'', ''COMP'', ''CORAD'',
      ''CORRECT'', ''CSWITCH'', ''DATA'', ''DATAPOOL'', ''DEBUG'', ''DECODE'',
      ''DEFID'', ''DENSE'', ''DEP'', ''DIRECT'', ''DISPLAY'', ''ELSE'', ''ELSIF'',
      ''ENCODE'', ''END'', ''ENDFILE'', ''EQ'', ''EQUALS'', ''EVENP'', ''EXCHANGE'',
      ''EXEC'', ''EXIT'', ''FIELD'', ''FILE'', ''FIND'', ''FOR'', ''FORMAT'', ''FROM'',
      ''FUNCTION'', ''GOTO'', ''GT'', ''GTEQ'', ''HEAD'', ''IF'', ''INDIRECT'',
      ''INPUT'', ''INTO'', ''INVALID'', ''LIBS'', ''LOG'', ''LT'', ''LTEQ'', ''MEANS'',
      ''MEDIUM'', ''MODE'', ''NITEMS'', ''NONE'', ''NOT'', ''OCM'', ''OODP'', ''OPEN'',
      ''OPTIONS'', ''OR'', ''OUTPUT'', ''OVERFLOW'', ''OVERLAY'', ''PRINT'', ''PTRACE'',
      ''PUNCH'', ''RANGE'', ''READ'', ''REGS'', ''RESUME'', ''RETURN'', ''SAVING'',
      ''SET'', ''SHIFT'', ''SNAP'', ''SPILL'', ''STOP'', ''SWAP'', ''SWITCH'', ''SYSTEM'',
      ''TABLE'', ''THEN'', ''THRU'', ''TO'', ''TRACE'', ''TYPE'', ''UNTIL'', ''USING'',
      ''VALID'', ''VARY'', ''VARYING'', ''VRBL'', ''WHILE'', ''WITH'', ''WITHIN'', ''XOR'',
      ''SYS-DD'', ''SYS-PROC'', ''SYS-PROC-REN'', ''END-SYS-DD'', ''END-SYS-PROC'',
      ''LOC-DD'', ''END-LOC-DD'', ''AUTO-DD'', ''END-AUTO-DD'',
      ''PROCEDURE'', ''END-PROC'', ''EXEC-PROC'', ''END-FUNCTION'',
      ''END-TABLE'', ''END-TYPE'', ''END-SWITCH'',
      ''EXTDEF'', ''EXTREF'', ''LOCREF'', ''TRANSREF'',
      ''CONVERTIN'', ''CONVERTOUT'', ''STRINGFORM'', ''INPUTLIST'', ''OUTPUTLIST'',
      ''P-SWITCH'', ''END-P-SW'', ''L-SWITCH'', ''SYS-INDEX'', ''LOC-INDEX'',
      ''LOAD-VRBL'', ''NOTFOUND'', ''FOUND'', ''CASE'', ''LOOP'', ''KEY1'', ''KEY2'', ''KEY3'']"

definition PREDEFINED_FUNCTIONS :: "string list" where
  "PREDEFINED_FUNCTIONS =
     [''ACDS2'', ''BAMS'', ''FIRST'', ''DRF'', ''SCALF'', ''ACDS'', ''CNT'', ''ICDS'',
      ''POS'', ''SIN'', ''ALDG'', ''COMPF'', ''IEXP'', ''PRED'', ''SUCC'', ''ANDF'',
      ''CONF'', ''ISIN'', ''RAD'', ''TDEF'', ''ASIN2'', ''COS'', ''LAST'', ''ROTATEHP'',
      ''VECTORHP'', ''ASIN'', ''EXP'', ''LENGTH'', ''REM'', ''VECTORP'', ''ATAN2'',
      ''FIL'', ''LN'', ''ROTATEP'', ''XORF'', ''ATAN'', ''ICOS'', ''ALOG'', ''ACOS'',
      ''ACOS2'']"

text \<open>\<^verbatim>\<open>\b([A-Z][A-Z0-9]*)\b\<close>, IGNORECASE: the pattern of \<^verbatim>\<open>get_hover_info\<close>\<close>

definition rx_hover_word :: rx where
  "rx_hover_word = seqs [WordB, Grp 1 rx_name_plain, WordB]"

text \<open>\<^verbatim>\<open>\b([A-Z][A-Z0-9_]*)\b\<close>, IGNORECASE: the pattern of \<^verbatim>\<open>_get_word_at_position\<close>\<close>

definition rx_word :: rx where
  "rx_word = seqs [WordB, Grp 1 rx_name, WordB]"

text \<open>
  The loop both functions run over \<^verbatim>\<open>re.finditer\<close>: the first match with
  \<^verbatim>\<open>match.start() <= column <= match.end()\<close>. A position is a Python integer.
\<close>

definition match_at_column :: "rx \<Rightarrow> string \<Rightarrow> int \<Rightarrow> (nat \<times> nat \<times> groups) option" where
  "match_at_column r line column =
     find (\<lambda>(start, end, g). int start \<le> column \<and> column \<le> int end) (finditer True r line)"

text \<open>\<^verbatim>\<open>CMS2LanguageServer._get_word_at_position\<close>\<close>

definition get_word_at_position :: "string \<Rightarrow> int \<Rightarrow> py_error + string option" where
  "get_word_at_position line character =
     (case match_at_column rx_word line character of
        None \<Rightarrow> Inr None
      | Some (start, end, g) \<Rightarrow> bind_err (group_str g 1) (\<lambda>w. Inr (Some (upper w))))"

text \<open>
  The payload of \<^verbatim>\<open>get_hover_info\<close>: its kind and the entity found, of which the
  dictionary the source builds lists the fields; for a keyword and a predefined function,
  the word.
\<close>

datatype hover_info =
    HoverVariable VariableDefinition
  | HoverTable TableDefinition
  | HoverProcedure ProcedureDefinition
  | HoverFunction FunctionDefinition
  | HoverType TypeDefinition
  | HoverKeyword string
  | HoverPredefined string

definition get_hover_info :: "CMS2SemanticParser \<Rightarrow> int \<Rightarrow> int \<Rightarrow> py_error + hover_info option" where
  "get_hover_info p line column =
     (if line < 0 \<or> int (length (lines p)) \<le> line then Inr None
      else
        (let current_line = lines p ! nat line
         in case match_at_column rx_hover_word current_line column of
              None \<Rightarrow> Inr None
            | Some (start, end, g) \<Rightarrow>
                bind_err (group_str g 1) (\<lambda>w.
                  let word = upper w
                  in case get_variable (model p) word of
                       Some var \<Rightarrow> Inr (Some (HoverVariable var))
                     | None \<Rightarrow>
                  (case get_table (model p) word of
                       Some table \<Rightarrow> Inr (Some (HoverTable table))
                     | None \<Rightarrow>
                  (case get_procedure (model p) word of
                       Some proc \<Rightarrow> Inr (Some (HoverProcedure proc))
                     | None \<Rightarrow>
                  (case get_function (model p) word of
                       Some func \<Rightarrow> Inr (Some (HoverFunction func))
                     | None \<Rightarrow>
                  (case get_type (model p) word of
                       Some typedef \<Rightarrow> Inr (Some (HoverType typedef))
                     | None \<Rightarrow>
                  if word \<in> set RESERVED_WORDS then Inr (Some (HoverKeyword word))
                  else if word \<in> set PREDEFINED_FUNCTIONS then Inr (Some (HoverPredefined word))
                  else Inr None)))))))"

text \<open>\<^verbatim>\<open>CMS2LanguageServer._find_definition\<close>\<close>

definition find_definition :: "CMS2SemanticModel \<Rightarrow> string \<Rightarrow> nat option" where
  "find_definition m name0 =
     (let name = upper name0
      in case get_variable m name of
           Some var \<Rightarrow> Some (var_line_number var)
         | None \<Rightarrow>
      (case get_table m name of
           Some table \<Rightarrow> Some (tbl_line_start table)
         | None \<Rightarrow>
      (case get_procedure m name of
           Some proc \<Rightarrow> Some (proc_line_start proc)
         | None \<Rightarrow>
      (case get_function m name of
           Some func \<Rightarrow> Some (func_line_start func)
         | None \<Rightarrow>
      (case get_type m name of
           Some typedef \<Rightarrow> Some (typ_line_start typedef)
         | None \<Rightarrow> None)))))"

section \<open>The language server: the state kept for each document\<close>

record CMS2LanguageServer =
  documents :: "string \<rightharpoonup> string"
  models :: "string \<rightharpoonup> CMS2SemanticModel"
  parsers :: "string \<rightharpoonup> CMS2SemanticParser"
  running :: bool

text \<open>
  The parameters of a notification are a decoded JSON object; \<^verbatim>\<open>textDocument\<close> and its
  \<^verbatim>\<open>uri\<close> may be missing, and \<^verbatim>\<open>get\<close> then gives the default.
\<close>

record TextDocumentIdentifier =
  uri :: "string option"

record DidCloseParams =
  textDocument :: "TextDocumentIdentifier option"

definition params_uri :: "DidCloseParams \<Rightarrow> string" where
  "params_uri params =
     (case textDocument params of
        None \<Rightarrow> []
      | Some doc \<Rightarrow> (case uri doc of None \<Rightarrow> [] | Some u \<Rightarrow> u))"

text \<open>\<^verbatim>\<open>if k in d: del d[k]\<close>\<close>

definition del_if_in :: "'k \<Rightarrow> ('k \<rightharpoonup> 'v) \<Rightarrow> ('k \<rightharpoonup> 'v)" where
  "del_if_in k d = (if d k \<noteq> None then d(k := None) else d)"

definition handle_did_close :: "DidCloseParams \<Rightarrow> CMS2LanguageServer \<Rightarrow> CMS2LanguageServer" where
  "handle_did_close params srv =
     (let u = params_uri params
      in srv\<lparr>documents := del_if_in u (documents srv),
             models := del_if_in u (models srv),
             parsers := del_if_in u (parsers srv)\<rparr>)"

section \<open>What a match guarantees\<close>

text \<open>
  The matches of a pattern as a relation: \<open>rx_sem r ic s cs g cs' g'\<close> holds when \<open>r\<close>
  can consume the text between \<open>cs\<close> and its suffix \<open>cs'\<close>, turning the groups \<open>g\<close>
  into \<open>g'\<close>. The matcher only ever returns such a match (\<open>rmatch_sound\<close>); which one
  it returns is decided by its search order.
\<close>

primrec rx_sem :: "rx \<Rightarrow> bool \<Rightarrow> string \<Rightarrow> string \<Rightarrow> groups \<Rightarrow> string \<Rightarrow> groups \<Rightarrow> bool" where
  "rx_sem (Lit l) ic s cs g cs' g' = (lit_prefix ic l cs = Some cs' \<and> g' = g)"
| "rx_sem (Cls p) ic s cs g cs' g' = (\<exists>c. cs = c # cs' \<and> p c \<and> g' = g)"
| "rx_sem (Star p) ic s cs g cs' g' = (\<exists>w. cs = w @ cs' \<and> list_all p w \<and> g' = g)"
| "rx_sem (Plus p) ic s cs g cs' g' = (\<exists>w. w \<noteq> [] \<and> cs = w @ cs' \<and> list_all p w \<and> g' = g)"
| "rx_sem (LazyStar p) ic s cs g cs' g' = (\<exists>w. cs = w @ cs' \<and> list_all p w \<and> g' = g)"
| "rx_sem (LazyPlus p) ic s cs g cs' g' = (\<exists>w. w \<noteq> [] \<and> cs = w @ cs' \<and> list_all p w \<and> g' = g)"
| "rx_sem (Opt a) ic s cs g cs' g' = (rx_sem a ic s cs g cs' g' \<or> (cs' = cs \<and> g' = g))"
| "rx_sem (Alt a b) ic s cs g cs' g' = (rx_sem a ic s cs g cs' g' \<or> rx_sem b ic s cs g cs' g')"
| "rx_sem (Seq a b) ic s cs g cs' g' = (\<exists>cm gm. rx_sem a ic s cs g cm gm \<and> rx_sem b ic s cm gm cs' g')"
| "rx_sem (Grp n a) ic s cs g cs' g' =
     (\<exists>gm. rx_sem a ic s cs g cs' gm \<and> g' = gm(n \<mapsto> take (length cs - length cs') cs))"
| "rx_sem WordB ic s cs g cs' g' = (at_boundary s cs \<and> cs' = cs \<and> g' = g)"
| "rx_sem Eol ic s cs g cs' g' = (cs = [] \<and> cs' = [] \<and> g' = g)"




text \<open>The documents and server states of the examples.\<close>

definition scenario5 :: string where
  "scenario5 = ''PROCEDURE UPDATE INPUT A, B OUTPUT C $'' @ [CHR 0x0A] @ ''END-PROC UPDATE $''"

definition close_of :: "string \<Rightarrow> DidCloseParams" where
  "close_of u = \<lparr>textDocument = Some \<lparr>uri = Some u\<rparr>\<rparr>"

definition two_documents :: CMS2LanguageServer where
  "two_documents =
     \<lparr>documents = [''file:///a.cms2'' \<mapsto> ''VRBL X B $'', ''file:///b.cms2'' \<mapsto> ''VRBL Y B $''],
      models = [''file:///a.cms2'' \<mapsto> new_model, ''file:///b.cms2'' \<mapsto> new_model],
      parsers = [''file:///a.cms2'' \<mapsto> new_parser, ''file:///b.cms2'' \<mapsto> new_parser],
      running = True\<rparr>"


text \<open>
  What one statement can do to the parser: every declaration parser and handler the
  classifier can call, as a transition. \<open>closing\<close> tells whether the statement may close
  a block; an entity enters the model with \<^verbatim>\<open>line_end\<close> 0.
\<close>

inductive step :: "bool \<Rightarrow> nat \<Rightarrow> CMS2SemanticParser \<Rightarrow> CMS2SemanticParser \<Rightarrow> bool"
  for closing :: bool and line_num :: nat
where
  skip: "step closing line_num p p"
| seq: "step closing line_num p q \<Longrightarrow> step closing line_num q r \<Longrightarrow> step closing line_num p r"
| open_dd: "step closing line_num p (open_sys_dd name line_num p)"
| open_proc: "step closing line_num p (open_sys_proc name is_reentrant line_num p)"
| loc_dd: "step closing line_num p (p\<lparr>in_loc_dd := b\<rparr>)"
| var: "step closing line_num p (store_variable var p)"
| tbl: "tbl_line_end table = 0 \<Longrightarrow> step closing line_num p (store_table table p)"
| fld: "step closing line_num p (store_field fld p)"
| status_type: "typ_line_end typedef = 0 \<Longrightarrow> step closing line_num p (store_status_type typedef p)"
| struct_type: "typ_line_end typedef = 0 \<Longrightarrow> step closing line_num p (store_struct_type typedef p)"
| proc: "proc_line_end proc = 0 \<Longrightarrow> step closing line_num p (store_procedure proc p)"
| exec_proc: "proc_line_end proc = 0 \<Longrightarrow> step closing line_num p (store_exec_proc proc p)"
| func: "func_line_end func = 0 \<Longrightarrow> step closing line_num p (store_function func p)"
| cmode: "step closing line_num p (parse_cmode statement line_num p)"
| end_dd: "closing \<Longrightarrow> step closing line_num p (handle_end_sys_dd statement line_num p)"
| end_sys_proc: "closing \<Longrightarrow> step closing line_num p (handle_end_sys_proc statement line_num p)"
| end_table: "closing \<Longrightarrow> step closing line_num p (handle_end_table statement line_num p)"
| end_type: "closing \<Longrightarrow> step closing line_num p (handle_end_type statement line_num p)"
| end_proc: "closing \<Longrightarrow> step closing line_num p (handle_end_proc statement line_num p)"
| end_function: "closing \<Longrightarrow> step closing line_num p (handle_end_function statement line_num p)"












subsection \<open>Soundness of the matcher\<close>

lemma greedy_sound:
  "greedy p cs k = Some res \<Longrightarrow> \<exists>w cs'. cs = w @ cs' \<and> list_all p w \<and> k cs' = Some res"
proof (induction cs)
  case Nil
  then show ?case by auto
next
  case (Cons c cs)
  show ?case
  proof (cases "p c \<and> greedy p cs k = Some res")
    case True
    then obtain w cs' where "cs = w @ cs'" "list_all p w" "k cs' = Some res"
      using Cons.IH by blast
    with True have "c # cs = (c # w) @ cs' \<and> list_all p (c # w) \<and> k cs' = Some res" by simp
    then show ?thesis by blast
  next
    case False
    with Cons.prems have "k (c # cs) = Some res"
      by (auto split: if_splits option.splits)
    then have "c # cs = [] @ (c # cs) \<and> list_all p [] \<and> k (c # cs) = Some res" by simp
    then show ?thesis by blast
  qed
qed

lemma lazy_sound:
  "lazy p cs k = Some res \<Longrightarrow> \<exists>w cs'. cs = w @ cs' \<and> list_all p w \<and> k cs' = Some res"
proof (induction cs)
  case Nil
  then show ?case by auto
next
  case (Cons c cs)
  show ?case
  proof (cases "k (c # cs) = Some res")
    case True
    then have "c # cs = [] @ (c # cs) \<and> list_all p [] \<and> k (c # cs) = Some res" by simp
    then show ?thesis by blast
  next
    case False
    with Cons.prems have pc: "p c" and "lazy p cs k = Some res"
      by (auto split: if_splits option.splits)
    then obtain w cs' where "cs = w @ cs'" "list_all p w" "k cs' = Some res"
      using Cons.IH by blast
    with pc have "c # cs = (c # w) @ cs' \<and> list_all p (c # w) \<and> k cs' = Some res" by simp
    then show ?thesis by blast
  qed
qed

lemma rmatch_sound:
  "rmatch r ic s cs g k = Some res \<Longrightarrow> \<exists>cs' g'. rx_sem r ic s cs g cs' g' \<and> k cs' g' = Some res"
proof (induction r arbitrary: cs g k res)
  case (Lit l)
  then show ?case by (auto split: option.splits)
next
  case (Cls p)
  then show ?case by (auto split: list.splits if_splits)
next
  case (Star p)
  then show ?case using greedy_sound [of p cs "\<lambda>cs'. k cs' g" res] by auto
next
  case (Plus p)
  then obtain c ct where cs: "cs = c # ct" and pc: "p c" and "greedy p ct (\<lambda>cs''. k cs'' g) = Some res"
    by (auto split: list.splits if_splits)
  then obtain w cs' where "ct = w @ cs'" "list_all p w" "k cs' g = Some res"
    using greedy_sound [of p ct "\<lambda>cs'. k cs' g" res] by auto
  with cs pc have "c # w \<noteq> [] \<and> cs = (c # w) @ cs' \<and> list_all p (c # w) \<and> k cs' g = Some res" by simp
  then show ?case unfolding rx_sem.simps by blast
next
  case (LazyStar p)
  then show ?case using lazy_sound [of p cs "\<lambda>cs'. k cs' g" res] by auto
next
  case (LazyPlus p)
  then obtain c ct where cs: "cs = c # ct" and pc: "p c" and "lazy p ct (\<lambda>cs''. k cs'' g) = Some res"
    by (auto split: list.splits if_splits)
  then obtain w cs' where "ct = w @ cs'" "list_all p w" "k cs' g = Some res"
    using lazy_sound [of p ct "\<lambda>cs'. k cs' g" res] by auto
  with cs pc have "c # w \<noteq> [] \<and> cs = (c # w) @ cs' \<and> list_all p (c # w) \<and> k cs' g = Some res" by simp
  then show ?case unfolding rx_sem.simps by blast
next
  case (Opt a)
  show ?case
  proof (cases "rmatch a ic s cs g k")
    case None
    with Opt.prems have "k cs g = Some res" by simp
    then show ?thesis by auto
  next
    case (Some r)
    with Opt.prems have "rmatch a ic s cs g k = Some res" by simp
    from Opt.IH [OF this] show ?thesis by auto
  qed
next
  case (Alt a b)
  show ?case
  proof (cases "rmatch a ic s cs g k")
    case None
    with Alt.prems have "rmatch b ic s cs g k = Some res" by simp
    from Alt.IH(2) [OF this] show ?thesis by auto
  next
    case (Some r)
    with Alt.prems have "rmatch a ic s cs g k = Some res" by simp
    from Alt.IH(1) [OF this] show ?thesis by auto
  qed
next
  case (Seq a b)
  from Seq.prems have "rmatch a ic s cs g (\<lambda>cs' g'. rmatch b ic s cs' g' k) = Some res" by simp
  from Seq.IH(1) [OF this] obtain cm gm where
    a: "rx_sem a ic s cs g cm gm" and "rmatch b ic s cm gm k = Some res" by auto
  from Seq.IH(2) [OF this(2)] obtain cs' g' where "rx_sem b ic s cm gm cs' g'" "k cs' g' = Some res"
    by auto
  with a show ?case by auto
next
  case (Grp n a)
  from Grp.prems have
    "rmatch a ic s cs g (\<lambda>cs' g'. k cs' (g'(n \<mapsto> take (length cs - length cs') cs))) = Some res"
    by simp
  from Grp.IH [OF this] obtain cs' gm where
    "rx_sem a ic s cs g cs' gm" "k cs' (gm(n \<mapsto> take (length cs - length cs') cs)) = Some res"
    by blast
  then show ?case unfolding rx_sem.simps by blast
next
  case WordB
  then show ?case by (auto split: if_splits)
next
  case Eol
  then show ?case by (auto split: if_splits)
qed

lemma lit_prefix_suffix: "lit_prefix ic l cs = Some cs' \<Longrightarrow> \<exists>w. cs = w @ cs' \<and> length w = length l"
proof (induction ic l cs rule: lit_prefix.induct)
  case (1 ic cs)
  then show ?case by simp
next
  case (2 ic l ls)
  then show ?case by simp
next
  case (3 ic l ls c cs)
  then have "lit_prefix ic ls cs = Some cs'" by (auto split: if_splits)
  with 3 obtain w where "cs = w @ cs'" "length w = length ls" by (auto split: if_splits)
  then have "c # cs = (c # w) @ cs' \<and> length (c # w) = length (l # ls)" by simp
  then show ?case by blast
qed

lemma rx_sem_suffix: "rx_sem r ic s cs g cs' g' \<Longrightarrow> \<exists>w. cs = w @ cs'"
proof (induction r arbitrary: cs g cs' g')
  case (Lit l)
  then show ?case using lit_prefix_suffix by fastforce
next
  case (Cls p)
  then obtain c where "cs = [c] @ cs'" by auto
  then show ?case by blast
next
  case (Star p)
  then obtain w where "cs = w @ cs'" by auto
  then show ?case by blast
next
  case (Plus p)
  then obtain w where "cs = w @ cs'" by auto
  then show ?case by blast
next
  case (LazyStar p)
  then obtain w where "cs = w @ cs'" by auto
  then show ?case by blast
next
  case (LazyPlus p)
  then obtain w where "cs = w @ cs'" by auto
  then show ?case by blast
next
  case (Opt a)
  then have "(\<exists>w. cs = w @ cs') \<or> cs = [] @ cs'" by auto
  then show ?case by blast
next
  case (Alt a b)
  then show ?case by auto
next
  case (Seq a b)
  then obtain cm gm where "rx_sem a ic s cs g cm gm" "rx_sem b ic s cm gm cs' g'" by auto
  with Seq.IH obtain w1 w2 where "cs = w1 @ cm" "cm = w2 @ cs'" by blast
  then have "cs = (w1 @ w2) @ cs'" by simp
  then show ?case by blast
next
  case (Grp n a)
  then show ?case by auto
next
  case WordB
  then have "cs = [] @ cs'" by simp
  then show ?case by blast
next
  case Eol
  then have "cs = [] @ cs'" by simp
  then show ?case by blast
qed




lemma match_at_sem:
  "match_at ic r s cs = Some (cs', g) \<Longrightarrow> rx_sem r ic s cs Map.empty cs' g"
  using rmatch_sound [of r ic s cs Map.empty "\<lambda>cs' g. Some (cs', g)" "(cs', g)"]
  by (auto simp: match_at_def)










subsection \<open>Matches of the word patterns\<close>

lemma word_match_consumes:
  assumes "match_at True r s cs = Some m" and "r = rx_word \<or> r = rx_hover_word"
  shows "\<exists>w. w \<noteq> [] \<and> cs = w @ fst m \<and> list_all is_word w"
proof -
  from assms(1) have sem: "rx_sem r True s cs Map.empty (fst m) (snd m)"
    using match_at_sem [of True r s cs "fst m" "snd m"] by simp
  have alpha: "cls_alpha c \<Longrightarrow> is_word c" for c
    by (auto simp: cls_alpha_def is_word_def)
  have ident: "cls_ident c \<Longrightarrow> is_word c" for c
    by (auto simp: cls_ident_def is_word_def)
  have alnum: "cls_alnum c \<Longrightarrow> is_word c" for c
    by (auto simp: cls_alnum_def is_word_def)
  from assms(2) show ?thesis
  proof
    assume "r = rx_word"
    with sem obtain c w where "cs = (c # w) @ fst m" "cls_alpha c" "list_all cls_ident w"
      by (auto simp: rx_word_def rx_name_def)
    then have "c # w \<noteq> [] \<and> cs = (c # w) @ fst m \<and> list_all is_word (c # w)"
      using alpha ident by (auto simp: list_all_iff)
    then show ?thesis by blast
  next
    assume "r = rx_hover_word"
    with sem obtain c w where "cs = (c # w) @ fst m" "cls_alpha c" "list_all cls_alnum w"
      by (auto simp: rx_hover_word_def rx_name_plain_def)
    then have "c # w \<noteq> [] \<and> cs = (c # w) @ fst m \<and> list_all is_word (c # w)"
      using alpha alnum by (auto simp: list_all_iff)
    then show ?thesis by blast
  qed
qed

lemma finditer_from_end:
  assumes w: "\<And>cs m. match_at ic r s cs = Some m \<Longrightarrow>
                \<exists>w. w \<noteq> [] \<and> cs = w @ fst m \<and> list_all is_word w"
  shows "(st, en, g) \<in> set (finditer_from ic r s cs skip) \<Longrightarrow> s = ps @ cs \<Longrightarrow>
         en \<le> length s \<and> (en = length s \<longrightarrow> s \<noteq> [] \<and> is_word (last s))"
proof (induction cs arbitrary: ps skip)
  case Nil
  show ?case
  proof (cases "match_at ic r s []")
    case None
    with Nil.prems(1) have False by (cases "skip = 0") simp_all
    then show ?thesis ..
  next
    case (Some m)
    from w [OF this] show ?thesis by simp
  qed
next
  case (Cons c cs)
  have s': "s = (ps @ [c]) @ cs" using Cons.prems(2) by simp
  show ?case
  proof (cases "0 < skip")
    case True
    with Cons.prems(1) have "(st, en, g) \<in> set (finditer_from ic r s cs (skip - 1))" by simp
    from Cons.IH [OF this s'] show ?thesis .
  next
    case False
    show ?thesis
    proof (cases "match_at ic r s (c # cs)")
      case None
      with False Cons.prems(1) have "(st, en, g) \<in> set (finditer_from ic r s cs 0)" by simp
      from Cons.IH [OF this s'] show ?thesis .
    next
      case (Some m)
      from w [OF Some] obtain wd where wd: "wd \<noteq> []" "c # cs = wd @ fst m" "list_all is_word wd"
        by blast
      let ?en = "length s - length (fst m)"
      from Some False Cons.prems(1) consider
        "en = ?en" | "(st, en, g) \<in> set (finditer_from ic r s cs (?en - (length s - length (c # cs)) - 1))"
        by (auto simp: Let_def)
      then show ?thesis
      proof cases
        case 1
        have "s = ps @ wd @ fst m" using Cons.prems(2) wd(2) by simp
        then have len: "length s = length ps + length wd + length (fst m)" by simp
        show ?thesis
        proof (rule conjI)
          show "en \<le> length s" using 1 by simp
        next
          show "en = length s \<longrightarrow> s \<noteq> [] \<and> is_word (last s)"
          proof
            assume "en = length s"
            with 1 len wd(1) have "fst m = []" by (cases "fst m") auto
            with \<open>s = ps @ wd @ fst m\<close> wd(1) have "s \<noteq> []" "last s = last wd" by simp_all
            moreover have "is_word (last wd)" using wd(1,3) by (simp add: list_all_iff)
            ultimately show "s \<noteq> [] \<and> is_word (last s)" by simp
          qed
        qed
      next
        case 2
        from Cons.IH [OF this s'] show ?thesis .
      qed
    qed
  qed
qed

lemma match_at_column_past_end:
  assumes "r = rx_word \<or> r = rx_hover_word"
    and "int (length line) < column \<or>
         (column = int (length line) \<and> (line = [] \<or> \<not> is_word (last line)))"
  shows "match_at_column r line column = None"
proof -
  have "\<not> (int st \<le> column \<and> column \<le> int en)"
    if "(st, en, g) \<in> set (finditer True r line)" for st en g
  proof -
    from that have "(st, en, g) \<in> set (finditer_from True r line line 0)"
      by (simp add: finditer_def)
    from finditer_from_end [of True r line st en g line 0 "[]", OF word_match_consumes [OF _ assms(1)] this]
    have "en \<le> length line \<and> (en = length line \<longrightarrow> line \<noteq> [] \<and> is_word (last line))"
      by simp
    with assms(2) show ?thesis by auto
  qed
  then show ?thesis
    by (auto simp: match_at_column_def find_None_iff)
qed

subsection \<open>No declaration parser raises\<close>







lemma py_int_total: "isdigit w \<Longrightarrow> \<exists>v. py_int w = Inr v"
  by (simp add: py_int_def)



























subsection \<open>Every statement is a transition\<close>























subsection \<open>Invariants of the parse loop\<close>




subsection \<open>What the transitions preserve\<close>




lemma length_obj_update [simp]: "length (obj_update r f objs) = length objs"
  by (simp add: obj_update_def)





















subsection \<open>Comments\<close>





subsection \<open>The parser never reads its \<open>lines\<close>\<close>




































subsection \<open>The document of one declaration\<close>





section \<open>The claims\<close>

text \<open>
  C1. A PROCEDURE declaration records its INPUT, OUTPUT and EXIT lists. The code does not:
  in the pattern the lazy \<^verbatim>\<open>(.*?)\<close> after INPUT is followed only by optional parts,
  so it matches the empty string and the match ends there. For the document of scenario 5
  the procedure UPDATE is recorded with \<open>is_exec\<close> false and all three lists empty, where
  the claim expects the inputs A, B and the output C.
\<close>

theorem procedure_params_lost:
  "(case parse scenario5 of
      Inl e \<Rightarrow> False
    | Inr p \<Rightarrow>
        (case get_procedure (model p) ''UPDATE'' of
           None \<Rightarrow> False
         | Some proc \<Rightarrow>
             proc_is_exec proc = False \<and> proc_input_params proc = [] \<and>
             proc_output_params proc = [] \<and> proc_exit_params proc = []))"
  by code_simp

text \<open>
  C2. Lookup of a variable is the same for every case variant of the name. This holds of
  the lookup as the query layer performs it: \<^verbatim>\<open>_find_definition\<close> upper-cases the name
  before it asks the model, so two names with the same upper case resolve alike.
  \<open>get_variable\<close> itself compares keys as they are.
\<close>

theorem find_definition_case_insensitive:
  "upper a = upper b \<Longrightarrow> find_definition m a = find_definition m b"
  by (simp add: find_definition_def)

theorem find_definition_case_insensitive_witness:
  "upper ''name'' = upper ''Name'' \<and>
   (case parse ''VRBL NAME B $'' of
      Inl e \<Rightarrow> False
    | Inr p \<Rightarrow>
        find_definition (model p) ''name'' = find_definition (model p) ''Name'' \<and>
        find_definition (model p) ''Name'' = Some 0)"
proof -
  have u: "upper ''name'' = upper ''Name''"
    by code_simp
  have v: "(case parse ''VRBL NAME B $'' of
              Inl e \<Rightarrow> False
            | Inr p \<Rightarrow> find_definition (model p) ''Name'' = Some 0)"
    by code_simp
  show ?thesis
    using u v find_definition_case_insensitive [OF u] by (auto split: sum.splits)
qed

text \<open>
  C2, as stated, fails: after parsing \<^verbatim>\<open>VRBL NAME B $\<close> the model answers
  \<open>get_variable\<close> for NAME with the variable and for name with nothing.
\<close>

theorem get_variable_case_counterexample:
  "(case parse ''VRBL NAME B $'' of
      Inl e \<Rightarrow> False
    | Inr p \<Rightarrow>
        map_option var_name (get_variable (model p) ''name'') = None \<and>
        map_option var_name (get_variable (model p) ''NAME'') = Some ''NAME'')"
  by code_simp

text \<open>
  C3. Every key of the registries is upper case, also for the grouped form of VRBL. The
  code upper-cases the name of the single form and only strips the names of the grouped
  form: \<^verbatim>\<open>VRBL (lat, lon) A 32 S 16 $\<close> stores its variables under lat and lon, and
  nothing under LAT or LON.
\<close>

theorem grouped_vrbl_keeps_case:
  "(case parse ''VRBL (lat, lon) A 32 S 16 $'' of
      Inl e \<Rightarrow> False
    | Inr p \<Rightarrow>
        map_option var_name (variables (model p) ''lat'') = Some ''lat'' \<and>
        map_option var_name (variables (model p) ''lon'') = Some ''lon'' \<and>
        map_option var_name (variables (model p) ''LAT'') = None \<and>
        map_option var_name (variables (model p) ''LON'') = None)"
  by code_simp

text \<open>
  C7. The identifier at a position is the match of \<^verbatim>\<open>[A-Z][A-Z0-9_]*\<close> around it, also
  for hover. \<^verbatim>\<open>_get_word_at_position\<close> does this; \<^verbatim>\<open>get_hover_info\<close> leaves the
  underscore out of its pattern, and between two word characters there is no word
  boundary, so inside STATUS_OK it finds no word at all: column 7 of
  \<^verbatim>\<open>VRBL STATUS_OK B $\<close> gives STATUS_OK for definition lookup and nothing for hover,
  although the variable is in the model.
\<close>

theorem hover_misses_underscore:
  "(case parse ''VRBL STATUS_OK B $'' of
      Inl e \<Rightarrow> False
    | Inr p \<Rightarrow>
        map_option var_name (get_variable (model p) ''STATUS_OK'') = Some ''STATUS_OK'' \<and>
        get_word_at_position ''VRBL STATUS_OK B $'' 7 = Inr (Some ''STATUS_OK'') \<and>
        (case get_hover_info p 0 7 of Inr None \<Rightarrow> True | _ \<Rightarrow> False))"
  by code_simp

text \<open>
  C10. Closing a document removes the entries of its URI from the documents, the models
  and the parsers, leaves every other URI and the running flag as they were, and changes
  nothing when the URI has no entry.
\<close>

theorem did_close_drops_only_uri:
  "documents (handle_did_close params srv) (params_uri params) = None \<and>
   models (handle_did_close params srv) (params_uri params) = None \<and>
   parsers (handle_did_close params srv) (params_uri params) = None \<and>
   (\<forall>u. u \<noteq> params_uri params \<longrightarrow>
      documents (handle_did_close params srv) u = documents srv u \<and>
      models (handle_did_close params srv) u = models srv u \<and>
      parsers (handle_did_close params srv) u = parsers srv u) \<and>
   running (handle_did_close params srv) = running srv \<and>
   (documents srv (params_uri params) = None \<and> models srv (params_uri params) = None \<and>
    parsers srv (params_uri params) = None \<longrightarrow> handle_did_close params srv = srv)"
  by (simp add: handle_did_close_def del_if_in_def Let_def)

theorem did_close_drops_only_uri_witness:
  "documents (handle_did_close (close_of ''file:///a.cms2'') two_documents) ''file:///a.cms2'' = None \<and>
   documents (handle_did_close (close_of ''file:///a.cms2'') two_documents) ''file:///b.cms2'' =
     Some ''VRBL Y B $'' \<and>
   ''file:///b.cms2'' \<noteq> params_uri (close_of ''file:///a.cms2'') \<and>
   documents two_documents ''file:///c.cms2'' = None \<and>
   models two_documents ''file:///c.cms2'' = None \<and>
   parsers two_documents ''file:///c.cms2'' = None \<and>
   handle_did_close (close_of ''file:///c.cms2'') two_documents = two_documents"
  using did_close_drops_only_uri [of "close_of ''file:///a.cms2''" two_documents]
    did_close_drops_only_uri [of "close_of ''file:///c.cms2''" two_documents]
  by (simp add: close_of_def params_uri_def two_documents_def)

text \<open>
  C5. A query at the end of a line or past it finds no identifier. Past the end this holds.
  At the end itself (column = length of the line) it holds when the line is empty or ends
  in a character that is no letter, digit or underscore; both \<^verbatim>\<open>_get_word_at_position\<close>
  and \<^verbatim>\<open>get_hover_info\<close> test \<^verbatim>\<open>start <= column <= end\<close>, so a word that ends
  the line is still found at the end of the line.
\<close>

theorem no_word_past_end_of_line:
  assumes "int (length line) < column \<or>
           (column = int (length line) \<and> (line = [] \<or> \<not> is_word (last line)))"
  shows "get_word_at_position line column = Inr None \<and>
         (0 \<le> l \<and> l < int (length (lines p)) \<and> lines p ! nat l = line \<longrightarrow>
            get_hover_info p l column = Inr None)"
  using match_at_column_past_end [of rx_word line column, OF _ assms]
    match_at_column_past_end [of rx_hover_word line column, OF _ assms]
  by (auto simp: get_word_at_position_def get_hover_info_def Let_def)

theorem no_word_past_end_of_line_witness:
  "int (length ''SET ALT $'') < 12 \<and>
   get_word_at_position ''SET ALT $'' 12 = Inr None \<and>
   get_hover_info (new_parser\<lparr>lines := [''SET ALT $'']\<rparr>) 0 12 = Inr None \<and>
   \<not> is_word (last ''SET ALT $'') \<and>
   get_word_at_position ''SET ALT $'' 9 = Inr None \<and>
   get_hover_info (new_parser\<lparr>lines := [''SET ALT $'']\<rparr>) 0 9 = Inr None"
proof -
  have a: "int (length ''SET ALT $'') < 12 \<or>
     (12 = int (length ''SET ALT $'') \<and> (''SET ALT $'' = [] \<or> \<not> is_word (last ''SET ALT $'')))"
    by simp
  have nw: "\<not> is_word (last ''SET ALT $'')"
    by (simp add: is_word_def is_upper_def is_lower_def is_digit_def)
  then have b: "int (length ''SET ALT $'') < 9 \<or>
     (9 = int (length ''SET ALT $'') \<and> (''SET ALT $'' = [] \<or> \<not> is_word (last ''SET ALT $'')))"
    by simp
  show ?thesis
    using nw no_word_past_end_of_line [OF a, of 0 "new_parser\<lparr>lines := [''SET ALT $'']\<rparr>"]
      no_word_past_end_of_line [OF b, of 0 "new_parser\<lparr>lines := [''SET ALT $'']\<rparr>"]
    by simp
qed

text \<open>C5, as stated, fails at the end of a line that ends in a word.\<close>

theorem word_at_end_of_line_counterexample:
  "get_word_at_position ''SET ALT'' (int (length ''SET ALT'')) = Inr (Some ''ALT'')"
  by code_simp










end
